theory Spec2Isabelle
  imports Complex_Main "HOL-Library.Sublist" "HOL-Library.Word"
begin

text \<open>
  A shallow embedding of the trading terminal: the exchange gateway (\<^verbatim>\<open>MexcService\<close>), the
  decision provider (\<^verbatim>\<open>AIService\<close>) and the three drivers of the component (market poller,
  account synchroniser, trading cycle). An \<^verbatim>\<open>async\<close> function is a computation on an explicit
  state that throws or returns; what the browser and the network supply (numbers, clock, random
  generator, HMAC, \<^verbatim>\<open>fetch\<close>, JSON parser, the Gemini client) is a parameter; what a run does to
  the outside is recorded in a trace. The definitions come first, the properties after them.
\<close>

section \<open>Strings\<close>

text \<open>
  Strings are byte lists (the UTF-8 encoding of the JavaScript string). The helpers below are
  the String methods the services call.
\<close>

text \<open>\<^verbatim>\<open>s.includes(sub)\<close>\<close>

fun str_includes :: "string \<Rightarrow> string \<Rightarrow> bool" where
  "str_includes [] sub = (sub = [])"
| "str_includes (c # cs) sub = (prefix sub (c # cs) \<or> str_includes cs sub)"

text \<open>\<^verbatim>\<open>s.trim()\<close>, for the ASCII white space characters.\<close>

definition is_space :: "char \<Rightarrow> bool" where
  "is_space c = (c \<in> set [CHR '' '', CHR 0x09, CHR 0x0A, CHR 0x0B, CHR 0x0C, CHR 0x0D])"

definition trim :: "string \<Rightarrow> string" where
  "trim s = rev (dropWhile is_space (rev (dropWhile is_space s)))"

text \<open>\<^verbatim>\<open>s.endsWith('/')\<close>\<close>

definition endsWith_slash :: "string \<Rightarrow> bool" where
  "endsWith_slash s = (s \<noteq> [] \<and> last s = CHR ''/'')"

text \<open>\<^verbatim>\<open>n.toString()\<close> of a non-negative integer such as \<^verbatim>\<open>Date.now()\<close> or an HTTP status.\<close>

fun show_nat :: "nat \<Rightarrow> string" where
  "show_nat n =
     (if n < 10 then [''0123456789'' ! n]
      else show_nat (n div 10) @ [''0123456789'' ! (n mod 10)])"

declare show_nat.simps [simp del]

definition is_alnum :: "char \<Rightarrow> bool" where
  "is_alnum c =
     (let n = (of_char c :: nat)
      in (48 \<le> n \<and> n \<le> 57) \<or> (65 \<le> n \<and> n \<le> 90) \<or> (97 \<le> n \<and> n \<le> 122))"

text \<open>Percent-encoding of one byte, upper-case hexadecimal.\<close>

definition pct :: "char \<Rightarrow> string" where
  "pct c =
     [CHR ''%'', ''0123456789ABCDEF'' ! ((of_char c :: nat) div 16),
      ''0123456789ABCDEF'' ! ((of_char c :: nat) mod 16)]"

text \<open>\<^verbatim>\<open>encodeURIComponent(s)\<close>: letters, digits and \<^verbatim>\<open>-_.!~*'()\<close> are kept.\<close>

definition uri_keep :: "char \<Rightarrow> bool" where
  "uri_keep c =
     (is_alnum c \<or>
      c \<in> set [CHR ''-'', CHR ''_'', CHR ''.'', CHR ''!'', CHR ''~'', CHR ''*'', CHR 0x27,
                 CHR ''('', CHR '')''])"

definition encodeURIComponent :: "string \<Rightarrow> string" where
  "encodeURIComponent s = concat (map (\<lambda>c. if uri_keep c then [c] else pct c) s)"

text \<open>
  The serialiser of \<^verbatim>\<open>URLSearchParams\<close> (application/x-www-form-urlencoded): letters, digits
  and \<^verbatim>\<open>*-._\<close> are kept, a space becomes \<^verbatim>\<open>+\<close>.
\<close>

definition form_keep :: "char \<Rightarrow> bool" where
  "form_keep c = (is_alnum c \<or> c \<in> set [CHR ''*'', CHR ''-'', CHR ''.'', CHR ''_''])"

definition form_encode :: "string \<Rightarrow> string" where
  "form_encode s =
     concat (map (\<lambda>c. if c = CHR '' '' then ''+'' else if form_keep c then [c] else pct c) s)"

fun join_with :: "string \<Rightarrow> string list \<Rightarrow> string" where
  "join_with sep [] = []"
| "join_with sep [x] = x"
| "join_with sep (x # y # ys) = x @ sep @ join_with sep (y # ys)"

section \<open>JavaScript values\<close>

text \<open>
  A value of type \<^verbatim>\<open>any\<close> that came out of \<^verbatim>\<open>JSON.parse\<close>, or \<^verbatim>\<open>undefined\<close>. The type \<open>'n\<close> is
  the type of JavaScript numbers; its arithmetic is a parameter (see \<open>platform\<close> below), so that
  no theorem depends on how IEEE doubles round. An object is the list of its own properties, the
  first binding of a key being the one that counts.
\<close>

datatype 'n json =
    JUndefined
  | JNull
  | JBool bool
  | JNum 'n
  | JStr string
  | JArr "'n json list"
  | JObj "(string \<times> 'n json) list"

datatype error_class = ErrorC | TypeErrorC | SyntaxErrorC

text \<open>A thrown value: an \<^verbatim>\<open>Error\<close> of some class with its message, or a value that is no \<^verbatim>\<open>Error\<close>.\<close>

datatype js_error = JsError error_class string | NonError

fun instanceof_TypeError :: "js_error \<Rightarrow> bool" where
  "instanceof_TypeError (JsError c m) = (c = TypeErrorC)"
| "instanceof_TypeError NonError = False"

text \<open>\<^verbatim>\<open>e.message?.includes(s)\<close>\<close>

fun message_includes :: "js_error \<Rightarrow> string \<Rightarrow> bool" where
  "message_includes (JsError c m) s = str_includes m s"
| "message_includes NonError s = False"

text \<open>
  \<^verbatim>\<open>v.k\<close>: a TypeError on \<^verbatim>\<open>null\<close> and \<^verbatim>\<open>undefined\<close> (the wording of the message is the
  engine's; V8's is used), the own property of an object, \<^verbatim>\<open>undefined\<close> elsewhere (none of the
  property names the services read is inherited from a prototype).
\<close>

definition get_prop :: "'n json \<Rightarrow> string \<Rightarrow> js_error + 'n json" where
  "get_prop v k =
     (case v of
        JUndefined \<Rightarrow>
          Inl (JsError TypeErrorC
                 (''Cannot read properties of undefined (reading '' @ [CHR 0x27] @ k @ [CHR 0x27] @ '')''))
      | JNull \<Rightarrow>
          Inl (JsError TypeErrorC
                 (''Cannot read properties of null (reading '' @ [CHR 0x27] @ k @ [CHR 0x27] @ '')''))
      | JObj kvs \<Rightarrow> Inr (case map_of kvs k of None \<Rightarrow> JUndefined | Some x \<Rightarrow> x)
      | _ \<Rightarrow> Inr JUndefined)"

section \<open>The platform\<close>

text \<open>The six values the analysis prompt is rendered from (the text of the template is fixed).\<close>

record 'n sample =
  time :: string
  sample_price :: 'n

record 'n prompt =
  prompt_symbol :: string
  prompt_price :: 'n
  prompt_change24h :: 'n
  prompt_volume :: 'n
  prompt_history :: "'n sample list"
  prompt_position :: string

text \<open>The body of a chat-completion request: the model and the prompt.\<close>

record 'n chat_request =
  model :: string
  content :: "'n prompt"

record 'n http_request =
  url :: string
  http_method :: string
  headers :: "(string \<times> string) list"
  body :: "'n chat_request option"

record http_response =
  ok :: bool
  status :: nat
  content_type :: "string option"
  body_text :: string

text \<open>\<^verbatim>\<open>fetch\<close> rejects with a TypeError when no response arrives, and resolves otherwise.\<close>

datatype fetch_outcome = NetworkError string | Responded http_response

text \<open>
  What the browser and the network supply. Number arithmetic and conversions are those of
  ECMAScript on IEEE doubles; here they are parameters, and so are the clock, the random
  generator, the HMAC of the Web Crypto API, the network (the answer to each request), the JSON
  parser and the Gemini client library. \<open>date_now k\<close> is the \<open>k\<close>-th reading of the clock and
  \<open>math_random k\<close> the \<open>k\<close>-th draw.
\<close>

record 'n platform =
  num :: "rat \<Rightarrow> 'n"
  nan :: 'n
  ndiv :: "'n \<Rightarrow> 'n \<Rightarrow> 'n"
  nmul :: "'n \<Rightarrow> 'n \<Rightarrow> 'n"
  nadd :: "'n \<Rightarrow> 'n \<Rightarrow> 'n"
  ngt :: "'n \<Rightarrow> 'n \<Rightarrow> bool"
  nequal :: "'n \<Rightarrow> 'n \<Rightarrow> bool"
  nfalsy :: "'n \<Rightarrow> bool"
  nstr :: "nat \<Rightarrow> 'n \<Rightarrow> string"
  string_to_number :: "string \<Rightarrow> 'n"
  parseFloat_string :: "string \<Rightarrow> 'n"
  date_now :: "nat \<Rightarrow> nat"
  locale_time :: "bool \<Rightarrow> nat \<Rightarrow> string"
  math_random :: "nat \<Rightarrow> 'n"
  hmac_sha256 :: "string \<Rightarrow> string \<Rightarrow> 8 word list"
  fetch :: "'n http_request \<Rightarrow> fetch_outcome"
  json_parse :: "string \<Rightarrow> js_error + 'n json"
  generateContent :: "string \<Rightarrow> 'n prompt \<Rightarrow> js_error + string option"
  process_env_API_KEY :: "string option"

text \<open>ToString, ToNumber, truthiness and \<^verbatim>\<open>===\<close> on values.\<close>

fun to_string :: "'n platform \<Rightarrow> 'n json \<Rightarrow> string" where
  "to_string pf JUndefined = ''undefined''"
| "to_string pf JNull = ''null''"
| "to_string pf (JBool b) = (if b then ''true'' else ''false'')"
| "to_string pf (JNum n) = nstr pf 10 n"
| "to_string pf (JStr s) = s"
| "to_string pf (JArr xs) =
     join_with '',''
       (map (\<lambda>x. if x = JNull \<or> x = JUndefined then [] else to_string pf x) xs)"
| "to_string pf (JObj kvs) = ''[object Object]''"

fun to_number :: "'n platform \<Rightarrow> 'n json \<Rightarrow> 'n" where
  "to_number pf JUndefined = nan pf"
| "to_number pf JNull = num pf 0"
| "to_number pf (JBool b) = (if b then num pf 1 else num pf 0)"
| "to_number pf (JNum n) = n"
| "to_number pf (JStr s) = string_to_number pf s"
| "to_number pf (JArr xs) = string_to_number pf (to_string pf (JArr xs))"
| "to_number pf (JObj kvs) = string_to_number pf (to_string pf (JObj kvs))"

fun truthy :: "'n platform \<Rightarrow> 'n json \<Rightarrow> bool" where
  "truthy pf JUndefined = False"
| "truthy pf JNull = False"
| "truthy pf (JBool b) = b"
| "truthy pf (JNum n) = (\<not> nfalsy pf n)"
| "truthy pf (JStr s) = (s \<noteq> [])"
| "truthy pf (JArr xs) = True"
| "truthy pf (JObj kvs) = True"

text \<open>
  \<^verbatim>\<open>a === b\<close>. The services compare with a primitive literal only, so two objects or arrays,
  which are equal when they are the same reference, never meet.
\<close>

fun strict_eq :: "'n platform \<Rightarrow> 'n json \<Rightarrow> 'n json \<Rightarrow> bool" where
  "strict_eq pf JUndefined JUndefined = True"
| "strict_eq pf JNull JNull = True"
| "strict_eq pf (JBool a) (JBool b) = (a = b)"
| "strict_eq pf (JNum a) (JNum b) = nequal pf a b"
| "strict_eq pf (JStr a) (JStr b) = (a = b)"
| "strict_eq pf a b = False"

text \<open>\<^verbatim>\<open>parseFloat(v)\<close> converts its argument to a string first.\<close>

definition parseFloat :: "'n platform \<Rightarrow> 'n json \<Rightarrow> 'n" where
  "parseFloat pf v = parseFloat_string pf (to_string pf v)"

section \<open>Effects\<close>

text \<open>
  What a run does to the outside is recorded in order: clock readings, random draws, calls of
  the signer (message and key), requests handed to \<^verbatim>\<open>fetch\<close>, and calls of the Gemini client
  (key of the client and prompt). The state of a run is this record, how many times the clock
  and the random generator have been read, and the client the AIService instance has cached
  (the key it was built with).
\<close>

datatype 'n event =
    ClockRead nat
  | RandomDraw
  | Signed string string
  | Dispatched "'n http_request"
  | GeminiCall string "'n prompt"

record 'n run_state =
  clock_reads :: nat
  random_draws :: nat
  geminiClient :: "string option"
  trace :: "'n event list"

text \<open>
  A computation on a state \<open>'s\<close>: it throws (\<open>Inl\<close>) or returns (\<open>Inr\<close>), and leaves a state. What was
  done to the state before a throw stays done.
\<close>

type_synonym ('s, 'a) io = "'s \<Rightarrow> (js_error + 'a) \<times> 's"

definition io_return :: "'a \<Rightarrow> ('s, 'a) io" where
  "io_return a s = (Inr a, s)"

definition io_throw :: "js_error \<Rightarrow> ('s, 'a) io" where
  "io_throw e s = (Inl e, s)"

definition io_bind :: "('s, 'a) io \<Rightarrow> ('a \<Rightarrow> ('s, 'b) io) \<Rightarrow> ('s, 'b) io" where
  "io_bind m f s = (case m s of (Inl e, s') \<Rightarrow> (Inl e, s') | (Inr a, s') \<Rightarrow> f a s')"

text \<open>\<^verbatim>\<open>try { m } catch (e) { h(e) }\<close>\<close>

definition try_catch :: "('s, 'a) io \<Rightarrow> (js_error \<Rightarrow> ('s, 'a) io) \<Rightarrow> ('s, 'a) io" where
  "try_catch m h s = (case m s of (Inl e, s') \<Rightarrow> h e s' | (Inr a, s') \<Rightarrow> (Inr a, s'))"

definition io_of :: "js_error + 'a \<Rightarrow> ('s, 'a) io" where
  "io_of r s = (r, s)"

definition emit :: "'n event \<Rightarrow> 'n run_state \<Rightarrow> 'n run_state" where
  "emit ev s = s\<lparr>trace := trace s @ [ev]\<rparr>"

text \<open>\<^verbatim>\<open>Date.now()\<close>\<close>

definition Date_now :: "'n platform \<Rightarrow> ('n run_state, nat) io" where
  "Date_now pf s =
     (let t = date_now pf (clock_reads s)
      in (Inr t, emit (ClockRead t) (s\<lparr>clock_reads := Suc (clock_reads s)\<rparr>)))"

text \<open>\<^verbatim>\<open>Math.random()\<close>\<close>

definition Math_random :: "'n platform \<Rightarrow> ('n run_state, 'n) io" where
  "Math_random pf s =
     (Inr (math_random pf (random_draws s)),
      emit RandomDraw (s\<lparr>random_draws := Suc (random_draws s)\<rparr>))"

text \<open>\<^verbatim>\<open>await fetch(...)\<close>\<close>

definition await_fetch :: "'n platform \<Rightarrow> 'n http_request \<Rightarrow> ('n run_state, http_response) io" where
  "await_fetch pf req s =
     (case fetch pf req of
        NetworkError m \<Rightarrow> (Inl (JsError TypeErrorC m), emit (Dispatched req) s)
      | Responded r \<Rightarrow> (Inr r, emit (Dispatched req) s))"

section \<open>Configuration\<close>

record 'n AppSettings =
  aiProvider :: string
  geminiApiKey :: "string option"
  openaiApiKey :: "string option"
  deepseekApiKey :: "string option"
  mexcApiKey :: string
  mexcSecretKey :: string
  tradingSymbol :: string
  defaultLeverage :: 'n
  riskPercent :: 'n
  isAutoTrading :: bool
  intervalMinutes :: 'n
  isLiveMode :: bool
  corsProxyUrl :: "string option"
  supabaseUrl :: string
  supabaseAnonKey :: string

section \<open>MexcService: signing and private requests\<close>

text \<open>\<^verbatim>\<open>b.toString(16).padStart(2, "0")\<close> of a byte.\<close>

definition byte_hex :: "8 word \<Rightarrow> string" where
  "byte_hex b = [''0123456789abcdef'' ! (unat b div 16), ''0123456789abcdef'' ! (unat b mod 16)]"

definition sign :: "'n platform \<Rightarrow> string \<Rightarrow> string \<Rightarrow> ('n run_state, string) io" where
  "sign pf params secret s =
     (Inr (concat (map byte_hex (hmac_sha256 pf secret params))), emit (Signed params secret) s)"

text \<open>
  \<^verbatim>\<open>{ ...params, timestamp: v }\<close>: a key that is already there keeps its place and takes the new
  value, a new key goes last. (Keys that are array indices would be moved to the front; no caller
  passes one.)
\<close>

definition spread_with :: "(string \<times> 'v) list \<Rightarrow> string \<Rightarrow> 'v \<Rightarrow> (string \<times> 'v) list" where
  "spread_with ps k v =
     (if k \<in> fst ` set ps then map (\<lambda>(k', v'). if k' = k then (k', v) else (k', v')) ps
      else ps @ [(k, v)])"

text \<open>\<^verbatim>\<open>new URLSearchParams(obj).toString()\<close>\<close>

definition URLSearchParams_toString :: "'n platform \<Rightarrow> (string \<times> 'n json) list \<Rightarrow> string" where
  "URLSearchParams_toString pf ps =
     join_with ''&'' (map (\<lambda>(k, v). form_encode k @ ''='' @ form_encode (to_string pf v)) ps)"

text \<open>The request URL: the target itself, or the target behind the configured forwarder.\<close>

definition forwarded :: "'n AppSettings \<Rightarrow> string \<Rightarrow> string" where
  "forwarded settings targetUrl =
     (case corsProxyUrl settings of
        None \<Rightarrow> targetUrl
      | Some p \<Rightarrow>
          if p \<noteq> [] \<and> trim p \<noteq> [] then
            (let proxy = trim p
             in if str_includes proxy ''?url='' then proxy @ encodeURIComponent targetUrl
                else proxy @ (if endsWith_slash proxy then [] else ''/'') @ targetUrl)
          else targetUrl)"

text \<open>The error thrown for a structured response that is not a success.\<close>

definition mexc_error :: "'n platform \<Rightarrow> http_response \<Rightarrow> 'n json \<Rightarrow> js_error + 'n json" where
  "mexc_error pf response result =
     (case get_prop result ''msg'' of
        Inl e \<Rightarrow> Inl e
      | Inr msg \<Rightarrow>
          if truthy pf msg then Inl (JsError ErrorC (to_string pf msg))
          else (case get_prop result ''message'' of
                  Inl e \<Rightarrow> Inl e
                | Inr message \<Rightarrow>
                    if truthy pf message then Inl (JsError ErrorC (to_string pf message))
                    else (case get_prop result ''code'' of
                            Inl e \<Rightarrow> Inl e
                          | Inr code \<Rightarrow>
                              Inl (JsError ErrorC
                                     (''MEXC Error '' @
                                      (if truthy pf code then to_string pf code
                                       else show_nat (status response)))))))"

definition classify_json :: "'n platform \<Rightarrow> http_response \<Rightarrow> js_error + 'n json" where
  "classify_json pf response =
     (case json_parse pf (body_text response) of
        Inl e \<Rightarrow> Inl e
      | Inr result \<Rightarrow>
          if \<not> ok response then mexc_error pf response result
          else (case get_prop result ''code'' of
                  Inl e \<Rightarrow> Inl e
                | Inr code \<Rightarrow>
                    if \<not> strict_eq pf code JUndefined \<and> \<not> strict_eq pf code (JNum (num pf 200))
                       \<and> \<not> strict_eq pf code (JNum (num pf 0))
                    then mexc_error pf response result
                    else Inr result))"

definition classify_text :: "'n platform \<Rightarrow> http_response \<Rightarrow> js_error + 'n json" where
  "classify_text pf response =
     (let text = body_text response
      in if str_includes text ''cors-anywhere'' \<and> str_includes text ''corsdemo'' then
           Inl (JsError ErrorC
                  ''Proxy Activation Required: Visit https://cors-anywhere.herokuapp.com/corsdemo and click the button.'')
         else if \<not> ok response then
           Inl (JsError ErrorC (''Proxy/Network Error: '' @ take 50 text @ ''...''))
         else (case json_parse pf text of
                 Inl e \<Rightarrow> Inl (JsError ErrorC (''Invalid JSON from Proxy: '' @ take 50 text))
               | Inr v \<Rightarrow> Inr v))"

definition classify :: "'n platform \<Rightarrow> http_response \<Rightarrow> js_error + 'n json" where
  "classify pf response =
     (case content_type response of
        None \<Rightarrow> classify_text pf response
      | Some contentType \<Rightarrow>
          if contentType \<noteq> [] \<and> str_includes contentType ''application/json''
          then classify_json pf response
          else classify_text pf response)"

definition keys_missing :: js_error where
  "keys_missing = JsError ErrorC ''MEXC API Keys are missing.''"

definition privateRequest ::
  "'n platform \<Rightarrow> string \<Rightarrow> string \<Rightarrow> string \<Rightarrow> 'n AppSettings \<Rightarrow> (string \<times> 'n json) list
    \<Rightarrow> ('n run_state, 'n json) io" where
  "privateRequest pf baseUrl endpoint method settings params =
     (if mexcApiKey settings = [] \<or> mexcSecretKey settings = [] then io_throw keys_missing
      else
        io_bind (Date_now pf) (\<lambda>timestamp.
          let queryParams =
                URLSearchParams_toString pf
                  (spread_with params ''timestamp'' (JStr (show_nat timestamp)))
          in io_bind (sign pf queryParams (mexcSecretKey settings)) (\<lambda>signature.
               let targetUrl = baseUrl @ endpoint @ ''?'' @ queryParams @ ''&signature='' @ signature;
                   requestUrl = forwarded settings targetUrl
               in try_catch
                    (io_bind
                       (await_fetch pf
                          \<lparr>url = requestUrl, http_method = method,
                           headers = [(''X-MEXC-APIKEY'', mexcApiKey settings),
                                      (''Content-Type'', ''application/json'')],
                           body = None\<rparr>)
                       (\<lambda>response. io_of (classify pf response)))
                    (\<lambda>e. if instanceof_TypeError e \<or> message_includes e ''fetch''
                         then io_throw
                                (JsError ErrorC
                                   ''CORS/Proxy Error. Use a Browser Extension or set a valid Proxy URL.'')
                         else io_throw e))))"

definition baseFuturesUrl :: string where
  "baseFuturesUrl = ''https://fapi.mexc.com''"

definition baseSpotUrl :: string where
  "baseSpotUrl = ''https://api.mexc.com''"

section \<open>MexcService: market data and account queries\<close>

text \<open>\<^verbatim>\<open>s.toUpperCase()\<close>, for the ASCII letters.\<close>

definition toUpperCase :: "string \<Rightarrow> string" where
  "toUpperCase s =
     map (\<lambda>c. if 97 \<le> (of_char c :: nat) \<and> (of_char c :: nat) \<le> 122
              then char_of ((of_char c :: nat) - 32) else c) s"

text \<open>\<^verbatim>\<open>xs.slice(-k)\<close>: the last \<open>k\<close> elements, all of them when there are fewer.\<close>

definition slice_last :: "nat \<Rightarrow> 'a list \<Rightarrow> 'a list" where
  "slice_last k xs = drop (length xs - k) xs"

text \<open>A read that cannot throw, for an object whose first property has been read already.\<close>

definition field :: "'n json \<Rightarrow> string \<Rightarrow> 'n json" where
  "field v k = (case get_prop v k of Inl e \<Rightarrow> JUndefined | Inr x \<Rightarrow> x)"

text \<open>\<^verbatim>\<open>xs.map(f)\<close> on an array, the callback running on each element in order.\<close>

fun io_map :: "('a \<Rightarrow> ('s, 'b) io) \<Rightarrow> 'a list \<Rightarrow> ('s, 'b list) io" where
  "io_map f [] = io_return []"
| "io_map f (x # xs) = io_bind (f x) (\<lambda>y. io_bind (io_map f xs) (\<lambda>ys. io_return (y # ys)))"

text \<open>
  \<^verbatim>\<open>v.map(f)\<close> on a value that is not \<^verbatim>\<open>null\<close> or \<^verbatim>\<open>undefined\<close>: a TypeError unless \<open>v\<close> is an
  array.
\<close>

definition array_map :: "'n json \<Rightarrow> ('n json \<Rightarrow> ('s, 'b) io) \<Rightarrow> ('s, 'b list) io" where
  "array_map v f =
     (case v of
        JArr xs \<Rightarrow> io_map f xs
      | _ \<Rightarrow> io_throw (JsError TypeErrorC ''map is not a function''))"

record 'n TickerData =
  symbol :: string
  price :: 'n
  change24h :: 'n
  volume :: 'n
  timestamp :: nat

definition getTicker :: "'n platform \<Rightarrow> string \<Rightarrow> ('n run_state, 'n TickerData) io" where
  "getTicker pf symb =
     io_bind
       (await_fetch pf
          \<lparr>url = ''https://api.binance.com/api/v3/ticker/24hr?symbol='' @ toUpperCase symb,
           http_method = ''GET'', headers = [], body = None\<rparr>)
       (\<lambda>response.
          if \<not> ok response then io_throw (JsError ErrorC ''Market API unreachable'')
          else io_bind (io_of (json_parse pf (body_text response))) (\<lambda>data.
               io_bind (io_of (get_prop data ''lastPrice'')) (\<lambda>lastPrice.
               io_bind (Date_now pf) (\<lambda>now.
               io_return
                 \<lparr>symbol = toUpperCase symb,
                  price = parseFloat pf lastPrice,
                  change24h = parseFloat pf (field data ''priceChangePercent''),
                  volume = parseFloat pf (field data ''volume''),
                  timestamp = now\<rparr>))))"

record 'n MexcBalance =
  asset :: "'n json"
  available :: "'n json"
  frozen :: "'n json"
  total :: "'n json"

definition spot_balance_of :: "'n platform \<Rightarrow> 'n json \<Rightarrow> ('n run_state, 'n MexcBalance) io" where
  "spot_balance_of pf b =
     io_bind (io_of (get_prop b ''asset'')) (\<lambda>a.
       io_return
         \<lparr>asset = a,
          available = JNum (parseFloat pf (field b ''free'')),
          frozen = JNum (parseFloat pf (field b ''locked'')),
          total = JNum (nadd pf (parseFloat pf (field b ''free''))
                                (parseFloat pf (field b ''locked'')))\<rparr>)"

definition getSpotBalance :: "'n platform \<Rightarrow> 'n AppSettings \<Rightarrow> ('n run_state, 'n MexcBalance list) io" where
  "getSpotBalance pf settings =
     io_bind (privateRequest pf baseSpotUrl ''/api/v3/account'' ''GET'' settings []) (\<lambda>data.
     io_bind (io_of (get_prop data ''balances'')) (\<lambda>balances.
     io_bind (array_map (if truthy pf balances then balances else JArr []) (spot_balance_of pf))
       (\<lambda>bs. io_return
                (filter (\<lambda>b. ngt pf (to_number pf (total b)) (num pf (1 / 100000))) bs))))"

definition futures_balance_of :: "'n json \<Rightarrow> ('n run_state, 'n MexcBalance) io" where
  "futures_balance_of b =
     io_bind (io_of (get_prop b ''currency'')) (\<lambda>c.
       io_return
         \<lparr>asset = c, available = field b ''availableBalance'',
          frozen = field b ''frozenBalance'', total = field b ''balance''\<rparr>)"

definition getFuturesBalance :: "'n platform \<Rightarrow> 'n AppSettings \<Rightarrow> ('n run_state, 'n MexcBalance list) io" where
  "getFuturesBalance pf settings =
     io_bind
       (privateRequest pf baseFuturesUrl ''/futures/api/v1/private/account/assets'' ''GET''
          settings [])
       (\<lambda>result.
          io_bind (io_of (get_prop result ''data'')) (\<lambda>data.
            if \<not> truthy pf data then io_return [] else array_map data futures_balance_of))"

datatype PositionSide = LONG | SHORT | NONE

text \<open>
  A position as the service builds it. The fields copied from the exchange's payload or from
  the arguments hold whatever value was there; \<open>side\<close> and \<open>pnlPercent\<close> are computed.
\<close>

record 'n Position =
  pos_id :: "'n json"
  pos_symbol :: "'n json"
  side :: PositionSide
  entryPrice :: "'n json"
  currentPrice :: "'n json"
  leverage :: "'n json"
  pnl :: "'n json"
  pnlPercent :: 'n
  margin :: "'n json"
  liquidationPrice :: "'n json"

definition position_of :: "'n platform \<Rightarrow> 'n json \<Rightarrow> ('n run_state, 'n Position) io" where
  "position_of pf p =
     io_bind (io_of (get_prop p ''positionId'')) (\<lambda>positionId.
     io_bind
       (if truthy pf positionId then io_return positionId
        else io_bind (Math_random pf) (\<lambda>r. io_return (JStr (nstr pf 10 r))))
       (\<lambda>i. io_return
               \<lparr>pos_id = i,
                pos_symbol = field p ''symbol'',
                side = (if strict_eq pf (field p ''positionType'') (JNum (num pf 1))
                        then LONG else SHORT),
                entryPrice = field p ''holdAvgPrice'',
                currentPrice = field p ''fairPrice'',
                leverage = field p ''leverage'',
                pnl = field p ''unrealizedPnl'',
                pnlPercent =
                  nmul pf
                    (ndiv pf (to_number pf (field p ''unrealizedPnl''))
                             (to_number pf (field p ''margin'')))
                    (num pf 100),
                margin = field p ''margin'',
                liquidationPrice = field p ''liquidatePrice''\<rparr>))"

definition getOpenPositions :: "'n platform \<Rightarrow> 'n AppSettings \<Rightarrow> ('n run_state, 'n Position list) io" where
  "getOpenPositions pf settings =
     io_bind
       (privateRequest pf baseFuturesUrl ''/futures/api/v1/private/position/open_details'' ''GET''
          settings [])
       (\<lambda>result.
          io_bind (io_of (get_prop result ''data'')) (\<lambda>data.
            if \<not> truthy pf data then io_return [] else array_map data (position_of pf)))"

record 'n MexcOrder =
  orderId :: "'n json"
  order_symbol :: "'n json"
  order_price :: "'n json"
  order_quantity :: "'n json"
  order_side :: string
  order_type :: string
  order_status :: string
  createTime :: "'n json"

definition order_of :: "'n platform \<Rightarrow> 'n json \<Rightarrow> ('n run_state, 'n MexcOrder) io" where
  "order_of pf ordr =
     io_bind (io_of (get_prop ordr ''orderId'')) (\<lambda>i.
       io_return
         \<lparr>orderId = i,
          order_symbol = field ordr ''symbol'',
          order_price = field ordr ''price'',
          order_quantity = field ordr ''vol'',
          order_side = (if strict_eq pf (field ordr ''side'') (JNum (num pf 1)) then ''BUY'' else ''SELL''),
          order_type = (if strict_eq pf (field ordr ''type'') (JNum (num pf 1)) then ''LIMIT'' else ''MARKET''),
          order_status = ''OPEN'',
          createTime = field ordr ''createTime''\<rparr>)"

definition getOpenOrders :: "'n platform \<Rightarrow> 'n AppSettings \<Rightarrow> ('n run_state, 'n MexcOrder list) io" where
  "getOpenOrders pf settings =
     io_bind
       (privateRequest pf baseFuturesUrl ''/futures/api/v1/private/order/list/open_orders'' ''GET''
          settings [])
       (\<lambda>result.
          io_bind (io_of (get_prop result ''data'')) (\<lambda>data.
            if \<not> truthy pf data then io_return [] else array_map data (order_of pf)))"

record 'n MexcTrade =
  trade_id :: "'n json"
  trade_symbol :: "'n json"
  trade_price :: "'n json"
  trade_quantity :: "'n json"
  trade_side :: string
  trade_pnl :: "'n json"
  trade_time :: "'n json"

definition trade_of :: "'n platform \<Rightarrow> 'n json \<Rightarrow> ('n run_state, 'n MexcTrade) io" where
  "trade_of pf t =
     io_bind (io_of (get_prop t ''orderId'')) (\<lambda>i.
       io_return
         \<lparr>trade_id = i,
          trade_symbol = field t ''symbol'',
          trade_price = field t ''avgPrice'',
          trade_quantity = field t ''vol'',
          trade_side = (if strict_eq pf (field t ''side'') (JNum (num pf 1)) then ''BUY'' else ''SELL''),
          trade_pnl = (if truthy pf (field t ''realisedPnl'') then field t ''realisedPnl''
                       else JNum (num pf 0)),
          trade_time = field t ''updateTime''\<rparr>)"

definition getTradeHistory :: "'n platform \<Rightarrow> 'n AppSettings \<Rightarrow> ('n run_state, 'n MexcTrade list) io" where
  "getTradeHistory pf settings =
     io_bind
       (privateRequest pf baseFuturesUrl ''/futures/api/v1/private/order/list/history_orders''
          ''GET'' settings [(''states'', JStr ''3,4'')])
       (\<lambda>result.
          io_bind (io_of (get_prop result ''data'')) (\<lambda>data.
            if \<not> truthy pf data then io_return [] else array_map data (trade_of pf)))"

record 'n MexcTransfer =
  transfer_id :: "'n json"
  transfer_asset :: "'n json"
  amount :: 'n
  transfer_type :: string
  transfer_status :: string
  transfer_timestamp :: "'n json"

definition transfer_of :: "'n platform \<Rightarrow> 'n json \<Rightarrow> ('n run_state, 'n MexcTransfer) io" where
  "transfer_of pf t =
     io_bind (io_of (get_prop t ''id'')) (\<lambda>i.
     io_bind
       (if truthy pf i then io_return i
        else io_bind (Math_random pf) (\<lambda>r. io_return (JStr (nstr pf 10 r))))
       (\<lambda>i'. io_return
                \<lparr>transfer_id = i',
                 transfer_asset = field t ''coin'',
                 amount = parseFloat pf (field t ''amount''),
                 transfer_type = ''DEPOSIT'',
                 transfer_status =
                   (if strict_eq pf (field t ''status'') (JNum (num pf 1)) then ''SUCCESS''
                    else ''PENDING''),
                 transfer_timestamp = field t ''insertTime''\<rparr>))"

text \<open>\<^verbatim>\<open>Array.isArray(v)\<close>\<close>

fun isArray :: "'n json \<Rightarrow> bool" where
  "isArray (JArr xs) = True"
| "isArray v = False"

text \<open>The body of the \<^verbatim>\<open>try\<close> block of \<^verbatim>\<open>getTransferHistory\<close>.\<close>

definition getTransferHistory_try ::
  "'n platform \<Rightarrow> 'n AppSettings \<Rightarrow> ('n run_state, 'n MexcTransfer list) io" where
  "getTransferHistory_try pf settings =
     io_bind (privateRequest pf baseSpotUrl ''/api/v3/capital/deposit/hisrec'' ''GET'' settings [])
       (\<lambda>result. if \<not> isArray result then io_return [] else array_map result (transfer_of pf))"

definition getTransferHistory ::
  "'n platform \<Rightarrow> 'n AppSettings \<Rightarrow> ('n run_state, 'n MexcTransfer list) io" where
  "getTransferHistory pf settings =
     try_catch (getTransferHistory_try pf settings) (\<lambda>e. io_return [])"

section \<open>MexcService: executeTrade\<close>

text \<open>What \<^verbatim>\<open>executeTrade\<close> resolves to: the fabricated position, or the exchange's answer.\<close>

datatype 'n trade_result = Fabricated "'n Position" | Answer "'n json"

text \<open>The exchange's code for the side of an order, and the parameters of the order.\<close>

definition side_code :: "'n platform \<Rightarrow> 'n json \<Rightarrow> 'n" where
  "side_code pf action =
     (if strict_eq pf action (JStr ''LONG'') then num pf 1
      else if strict_eq pf action (JStr ''SHORT'') then num pf 2
      else num pf 3)"

definition orderParams :: "'n platform \<Rightarrow> 'n json \<Rightarrow> 'n AppSettings \<Rightarrow> (string \<times> 'n json) list" where
  "orderParams pf action settings =
     [(''symbol'', JStr (tradingSymbol settings)),
      (''vol'', JNum (num pf 1)),
      (''side'', JNum (side_code pf action)),
      (''type'', JNum (num pf 5)),
      (''openType'', JNum (num pf 1)),
      (''leverage'', JNum (defaultLeverage settings))]"

definition executeTrade ::
  "'n platform \<Rightarrow> 'n json \<Rightarrow> 'n AppSettings \<Rightarrow> 'n \<Rightarrow> ('n run_state, 'n trade_result) io" where
  "executeTrade pf action settings marketPrice =
     (if \<not> isLiveMode settings then
        io_bind (Math_random pf) (\<lambda>r.
          io_return
            (Fabricated
               \<lparr>pos_id = JStr (''sim-'' @ drop 7 (nstr pf 36 r)),
                pos_symbol = JStr (tradingSymbol settings),
                side = (if strict_eq pf action (JStr ''LONG'') then LONG else SHORT),
                entryPrice = JNum marketPrice,
                currentPrice = JNum marketPrice,
                leverage = JNum (defaultLeverage settings),
                pnl = JNum (num pf 0),
                pnlPercent = num pf 0,
                margin = JNum (num pf 100),
                liquidationPrice = JUndefined\<rparr>))
      else
        io_bind
          (privateRequest pf baseFuturesUrl ''/futures/api/v1/private/order/create'' ''POST''
             settings (orderParams pf action settings))
          (\<lambda>result. io_return (Answer result)))"

section \<open>AIService\<close>

text \<open>\<^verbatim>\<open>a || d\<close> for an optional string \<open>a\<close>: absent and empty are both falsy.\<close>

fun str_or :: "string option \<Rightarrow> string \<Rightarrow> string" where
  "str_or None d = d"
| "str_or (Some a) d = (if a \<noteq> [] then a else d)"

text \<open>
  \<^verbatim>\<open>getGemini\<close>: the client is built on the first call and kept; it is named by the key it was
  built with.
\<close>

definition getGemini :: "string \<Rightarrow> ('n run_state, string) io" where
  "getGemini apiKey s =
     (case geminiClient s of
        None \<Rightarrow> (Inr apiKey, s\<lparr>geminiClient := Some apiKey\<rparr>)
      | Some client \<Rightarrow> (Inr client, s))"

text \<open>\<^verbatim>\<open>await ai.models.generateContent(...)\<close>, resolving to \<^verbatim>\<open>response.text\<close>.\<close>

definition await_generateContent ::
  "'n platform \<Rightarrow> string \<Rightarrow> 'n prompt \<Rightarrow> ('n run_state, string option) io" where
  "await_generateContent pf client p s = (generateContent pf client p, emit (GeminiCall client p) s)"

record 'n MarketData = "'n TickerData" +
  history :: "'n sample list"

definition build_prompt :: "'n MarketData \<Rightarrow> string \<Rightarrow> 'n prompt" where
  "build_prompt data currentPositionSide =
     \<lparr>prompt_symbol = symbol data,
      prompt_price = price data,
      prompt_change24h = change24h data,
      prompt_volume = volume data,
      prompt_history = slice_last 10 (history data),
      prompt_position = currentPositionSide\<rparr>"

text \<open>\<^verbatim>\<open>v[0]\<close>\<close>

definition index0 :: "'n json \<Rightarrow> js_error + 'n json" where
  "index0 v =
     (case v of
        JArr xs \<Rightarrow> Inr (case xs of [] \<Rightarrow> JUndefined | x # _ \<Rightarrow> x)
      | JStr cs \<Rightarrow> Inr (case cs of [] \<Rightarrow> JUndefined | c # _ \<Rightarrow> JStr [c])
      | _ \<Rightarrow> get_prop v ''0'')"

definition sum_bind :: "'e + 'a \<Rightarrow> ('a \<Rightarrow> 'e + 'b) \<Rightarrow> 'e + 'b" where
  "sum_bind r f = (case r of Inl e \<Rightarrow> Inl e | Inr a \<Rightarrow> f a)"

text \<open>The message of \<^verbatim>\<open>new Error(v)\<close>: empty for \<^verbatim>\<open>undefined\<close>, the string of \<open>v\<close> otherwise.\<close>

definition Error_of :: "'n platform \<Rightarrow> 'n json \<Rightarrow> js_error" where
  "Error_of pf v = JsError ErrorC (if v = JUndefined then [] else to_string pf v)"

text \<open>What the OpenAI and the DeepSeek branch do with the parsed response body.\<close>

definition chat_decision :: "'n platform \<Rightarrow> 'n json \<Rightarrow> js_error + 'n json" where
  "chat_decision pf json =
     sum_bind (get_prop json ''error'') (\<lambda>err.
       if truthy pf err then Inl (Error_of pf (field err ''message''))
       else
         sum_bind (get_prop json ''choices'') (\<lambda>choices.
         sum_bind (index0 choices) (\<lambda>choice.
         sum_bind (get_prop choice ''message'') (\<lambda>message.
         sum_bind (get_prop message ''content'') (\<lambda>c.
           json_parse pf (to_string pf c))))))"

text \<open>The request of a chat completion.\<close>

definition chat_post :: "string \<Rightarrow> string \<Rightarrow> string \<Rightarrow> 'n prompt \<Rightarrow> 'n http_request" where
  "chat_post endpoint model_name apiKey p =
     \<lparr>url = endpoint, http_method = ''POST'',
      headers = [(''Content-Type'', ''application/json''),
                 (''Authorization'', ''Bearer '' @ apiKey)],
      body = Some \<lparr>model = model_name, content = p\<rparr>\<rparr>"

definition chat_completion ::
  "'n platform \<Rightarrow> string \<Rightarrow> string \<Rightarrow> string \<Rightarrow> 'n prompt \<Rightarrow> ('n run_state, 'n json) io" where
  "chat_completion pf endpoint model_name apiKey p =
     io_bind (await_fetch pf (chat_post endpoint model_name apiKey p))
       (\<lambda>response.
          io_bind (io_of (json_parse pf (body_text response))) (\<lambda>json.
            io_of (chat_decision pf json)))"

text \<open>The body of the \<^verbatim>\<open>try\<close> block of \<^verbatim>\<open>analyze\<close>.\<close>

definition analyze_try :: "'n platform \<Rightarrow> 'n AppSettings \<Rightarrow> 'n prompt \<Rightarrow> ('n run_state, 'n json) io" where
  "analyze_try pf settings p =
     (if aiProvider settings = ''gemini'' then
        (let envKey = process_env_API_KEY pf;
             apiKey = str_or (geminiApiKey settings) (str_or envKey [])
         in if apiKey = [] then
              io_throw (JsError ErrorC ''Gemini API Key missing. Please provide it in settings.'')
            else
              io_bind (getGemini apiKey) (\<lambda>ai.
              io_bind (await_generateContent pf ai p) (\<lambda>text.
                io_of (json_parse pf (str_or text ''{}'')))))
      else if aiProvider settings = ''openai'' then
        (if str_or (openaiApiKey settings) [] = [] then
           io_throw (JsError ErrorC ''OpenAI API Key missing'')
         else chat_completion pf ''https://api.openai.com/v1/chat/completions'' ''gpt-4o''
                (str_or (openaiApiKey settings) []) p)
      else if aiProvider settings = ''deepseek'' then
        (if str_or (deepseekApiKey settings) [] = [] then
           io_throw (JsError ErrorC ''DeepSeek API Key missing'')
         else chat_completion pf ''https://api.deepseek.com/chat/completions'' ''deepseek-chat''
                (str_or (deepseekApiKey settings) []) p)
      else io_throw (JsError ErrorC ''Unsupported AI Provider''))"

text \<open>The decision the \<^verbatim>\<open>catch\<close> block of \<^verbatim>\<open>analyze\<close> returns.\<close>

definition analysis_failed :: "'n platform \<Rightarrow> js_error \<Rightarrow> 'n json" where
  "analysis_failed pf err =
     JObj [(''action'', JStr ''WAIT''),
           (''leverage'', JNum (num pf 1)),
           (''reason'',
            JStr (''Analysis failed: '' @
                  (case err of JsError c m \<Rightarrow> m | NonError \<Rightarrow> ''Unknown error''))),
           (''confidence'', JNum (num pf 0))]"

definition analyze ::
  "'n platform \<Rightarrow> 'n AppSettings \<Rightarrow> 'n MarketData \<Rightarrow> string \<Rightarrow> ('n run_state, 'n json) io" where
  "analyze pf settings data currentPositionSide =
     (let p = build_prompt data currentPositionSide
      in try_catch (analyze_try pf settings p) (\<lambda>err. io_return (analysis_failed pf err)))"

section \<open>The application: state and drivers\<close>

datatype log_type = INFO | SUCCESS | WARNING | ERROR_LOG | TRADE

record TradingLog =
  log_id :: string
  log_timestamp :: string
  log_type :: log_type
  log_message :: string

datatype connection = CONNECTED | DISCONNECTED | ERROR

text \<open>
  The state of the component, with the state of the run in it. A driver reads the values its
  closure captured (the state it starts from) and writes with the setters.
\<close>

record 'n app_state =
  settings :: "'n AppSettings"
  marketData :: "'n MarketData option"
  spotBalances :: "'n MexcBalance list"
  futuresBalances :: "'n MexcBalance list"
  mexcPositions :: "'n Position list"
  mexcOrders :: "'n MexcOrder list"
  mexcTrades :: "'n MexcTrade list"
  mexcTransfers :: "'n MexcTransfer list"
  logs :: "TradingLog list"
  lastAction :: "'n json option"
  isLoading :: bool
  isAnalyzing :: bool
  mexcStatus :: connection
  isLoggedIn :: bool
  run :: "'n run_state"

text \<open>A service call made from the component.\<close>

definition in_run :: "('n run_state, 'a) io \<Rightarrow> ('n app_state, 'a) io" where
  "in_run m app = (case m (run app) of (r, s') \<Rightarrow> (r, app\<lparr>run := s'\<rparr>))"

text \<open>A setter.\<close>

definition modify :: "('s \<Rightarrow> 's) \<Rightarrow> ('s, unit) io" where
  "modify f app = (Inr (), f app)"

text \<open>
  \<^verbatim>\<open>addLog\<close>: the entry goes first and the list is cut to 100. (The copy sent to the cloud
  log is outside this development; its failure is swallowed.)
\<close>

definition addLog :: "'n platform \<Rightarrow> log_type \<Rightarrow> string \<Rightarrow> ('n app_state, unit) io" where
  "addLog pf ty message =
     io_bind (in_run (Date_now pf)) (\<lambda>t1.
     io_bind (in_run (Date_now pf)) (\<lambda>t2.
       modify (\<lambda>app. app\<lparr>logs :=
         take 100 (\<lparr>log_id = show_nat t1, log_timestamp = locale_time pf False t2,
                    log_type = ty, log_message = message\<rparr> # logs app)\<rparr>)))"

definition refreshMarket :: "'n platform \<Rightarrow> 'n AppSettings \<Rightarrow> ('n app_state, unit) io" where
  "refreshMarket pf cfg =
     try_catch
       (io_bind (in_run (getTicker pf (tradingSymbol cfg))) (\<lambda>ticker.
        io_bind (in_run (Date_now pf)) (\<lambda>now.
        io_bind
          (modify (\<lambda>app.
             (let currentTime = locale_time pf True now;
                  h = (case marketData app of None \<Rightarrow> [] | Some prev \<Rightarrow> history prev);
                  newHistory = slice_last 50 (h @ [\<lparr>time = currentTime, sample_price = price ticker\<rparr>])
              in app\<lparr>marketData :=
                      Some \<lparr>symbol = symbol ticker, price = price ticker,
                            change24h = change24h ticker, volume = volume ticker,
                            timestamp = timestamp ticker, history = newHistory\<rparr>\<rparr>)))
          (\<lambda>_. modify (\<lambda>app. app\<lparr>isLoading := False\<rparr>)))))
       (\<lambda>err. modify (\<lambda>app. app\<lparr>isLoading := False\<rparr>))"

text \<open>
  \<^verbatim>\<open>Promise.all\<close> of two calls: both are started, in this order, whatever the other does; the
  result is a rejection when one rejects. (Of two rejections the earlier in time wins; here the
  first in the list does.)
\<close>

definition io_both :: "('s, 'a) io \<Rightarrow> ('s, 'b) io \<Rightarrow> ('s, 'a \<times> 'b) io" where
  "io_both m1 m2 s =
     (case m1 s of (r1, s1) \<Rightarrow>
        (case m2 s1 of (r2, s2) \<Rightarrow>
           ((case r1 of Inl e \<Rightarrow> Inl e
             | Inr a \<Rightarrow> (case r2 of Inl e \<Rightarrow> Inl e | Inr b \<Rightarrow> Inr (a, b))), s2)))"

definition error_message :: "js_error \<Rightarrow> string" where
  "error_message e = (case e of JsError c m \<Rightarrow> m | NonError \<Rightarrow> ''undefined'')"

definition refreshAccountData ::
  "'n platform \<Rightarrow> 'n AppSettings \<Rightarrow> bool \<Rightarrow> ('n app_state, unit) io" where
  "refreshAccountData pf cfg loggedIn =
     (if mexcApiKey cfg = [] \<or> mexcSecretKey cfg = [] \<or> \<not> loggedIn then
        modify (\<lambda>app. app\<lparr>mexcStatus := DISCONNECTED\<rparr>)
      else
        try_catch
          (io_bind
             (in_run
                (io_both (getSpotBalance pf cfg)
                (io_both (getFuturesBalance pf cfg)
                (io_both (getOpenPositions pf cfg)
                (io_both (getOpenOrders pf cfg)
                (io_both (getTradeHistory pf cfg)
                         (getTransferHistory pf cfg)))))))
             (\<lambda>(spot, futures, positions, orders, trades, transfers).
                modify (\<lambda>app.
                  app\<lparr>spotBalances := spot, futuresBalances := futures,
                      mexcPositions := positions, mexcOrders := orders,
                      mexcTrades := trades, mexcTransfers := transfers,
                      mexcStatus := CONNECTED\<rparr>)))
          (\<lambda>e. io_bind (addLog pf ERROR_LOG (''MEXC sync error: '' @ error_message e))
                  (\<lambda>_. modify (\<lambda>app. app\<lparr>mexcStatus := ERROR\<rparr>))))"

fun side_name :: "PositionSide \<Rightarrow> string" where
  "side_name LONG = ''LONG''"
| "side_name SHORT = ''SHORT''"
| "side_name NONE = ''NONE''"

text \<open>
  One trading cycle, from the state \<open>app0\<close> its closure captured. The account refresh at the end
  is started and not awaited; it cannot reject.
\<close>

definition runTradingCycle :: "'n platform \<Rightarrow> 'n app_state \<Rightarrow> ('n app_state, unit) io" where
  "runTradingCycle pf app0 =
     (case marketData app0 of
        None \<Rightarrow> io_return ()
      | Some md \<Rightarrow>
          if \<not> isAutoTrading (settings app0) then io_return ()
          else
            try_catch
              (io_bind (modify (\<lambda>app. app\<lparr>isAnalyzing := True\<rparr>)) (\<lambda>_.
               let activeSide = (case mexcPositions app0 of [] \<Rightarrow> NONE | p # ps \<Rightarrow> side p)
               in io_bind (in_run (analyze pf (settings app0) md (side_name activeSide))) (\<lambda>decision.
                  io_bind (modify (\<lambda>app. app\<lparr>lastAction := Some decision\<rparr>)) (\<lambda>_.
                  io_bind (io_of (get_prop decision ''action'')) (\<lambda>action.
                  io_bind
                    (if \<not> strict_eq pf action (JStr ''WAIT'') then
                       io_bind
                         (addLog pf TRADE
                            (''AI decision: '' @ to_string pf action @ '' ('' @
                             to_string pf (field decision ''confidence'') @ ''%)''))
                         (\<lambda>_. if isLiveMode (settings app0) then
                                io_bind
                                  (in_run (executeTrade pf action (settings app0) (price md)))
                                  (\<lambda>_. refreshAccountData pf (settings app0) (isLoggedIn app0))
                              else io_return ())
                     else io_return ())
                    (\<lambda>_. modify (\<lambda>app. app\<lparr>isAnalyzing := False\<rparr>)))))))
              (\<lambda>err.
                 io_bind
                   (addLog pf ERROR_LOG
                      (''AI analysis failed: '' @
                       (case err of JsError c m \<Rightarrow> m | NonError \<Rightarrow> ''Unknown'')))
                   (\<lambda>_. modify (\<lambda>app. app\<lparr>isAnalyzing := False\<rparr>))))"

text \<open>The market driver: \<open>n\<close> ticks of \<^verbatim>\<open>setInterval(refreshMarket, 5000)\<close>, one after the other.\<close>

fun poll :: "'n platform \<Rightarrow> 'n AppSettings \<Rightarrow> nat \<Rightarrow> 'n app_state \<Rightarrow> 'n app_state" where
  "poll pf cfg 0 app = app"
| "poll pf cfg (Suc n) app = poll pf cfg n (snd (refreshMarket pf cfg app))"

section \<open>The trading loop as the effect and the timer drive it\<close>

text \<open>
  The effect that drives the loop runs after the first render, and again after every render in
  which \<^verbatim>\<open>settings.isAutoTrading\<close>, \<^verbatim>\<open>settings.intervalMinutes\<close> or the callback
  \<^verbatim>\<open>runTradingCycle\<close> has changed; the callback is made anew whenever the settings, the positions
  or the snapshot change, which every successful market tick and every account refresh bring
  about. A run of the effect first clears the interval the run before it has set. With
  auto-trading on it then calls \<^verbatim>\<open>runTradingCycle\<close> at once and sets an interval that calls it
  at every tick; the callback is the one of the render, with the settings and the snapshot of
  that render.

  A call of \<^verbatim>\<open>runTradingCycle\<close> runs up to its first \<^verbatim>\<open>await\<close> (the analysis), is resumed when
  the analysis resolves, runs up to the second \<^verbatim>\<open>await\<close> (\<^verbatim>\<open>executeTrade\<close>, in live mode and for
  a decision other than WAIT), and is resumed when the trade settles. Between two of these
  points other callbacks run. A cycle in flight is at its first \<^verbatim>\<open>await\<close> (ANALYZING) or at its
  second (EXECUTING); the cycles are numbered in the order they were started, and each keeps
  the settings its callback captured.
\<close>

datatype phase = ANALYZING | EXECUTING




text \<open>
  Where a cycle goes when its analysis has resolved to \<open>decision\<close>: to the second \<^verbatim>\<open>await\<close>, or
  to its end (a decision of WAIT, simulation mode, or a decision whose \<^verbatim>\<open>action\<close> cannot be read,
  which the \<^verbatim>\<open>catch\<close> block logs).
\<close>

definition after_analysis :: "'n platform \<Rightarrow> 'n AppSettings \<Rightarrow> 'n json \<Rightarrow> phase option" where
  "after_analysis pf cfg decision =
     (case get_prop decision ''action'' of
        Inl e \<Rightarrow> None
      | Inr action \<Rightarrow>
          if \<not> strict_eq pf action (JStr ''WAIT'') \<and> isLiveMode cfg then Some EXECUTING
          else None)"







section \<open>Reading a trace\<close>

text \<open>
  The request a private call hands to \<^verbatim>\<open>fetch\<close> when the clock reads \<open>t\<close>: the query string is
  signed, the signature is appended, and the URL is forwarded.
\<close>

definition query_string :: "'n platform \<Rightarrow> (string \<times> 'n json) list \<Rightarrow> nat \<Rightarrow> string" where
  "query_string pf params t =
     URLSearchParams_toString pf (spread_with params ''timestamp'' (JStr (show_nat t)))"

definition signature_of :: "'n platform \<Rightarrow> 'n AppSettings \<Rightarrow> string \<Rightarrow> string" where
  "signature_of pf cfg q = concat (map byte_hex (hmac_sha256 pf (mexcSecretKey cfg) q))"

definition target_url ::
  "'n platform \<Rightarrow> string \<Rightarrow> string \<Rightarrow> 'n AppSettings \<Rightarrow> (string \<times> 'n json) list \<Rightarrow> nat \<Rightarrow> string" where
  "target_url pf baseUrl endpoint cfg params t =
     baseUrl @ endpoint @ ''?'' @ query_string pf params t @ ''&signature='' @
     signature_of pf cfg (query_string pf params t)"

definition sent_request ::
  "'n platform \<Rightarrow> string \<Rightarrow> string \<Rightarrow> string \<Rightarrow> 'n AppSettings \<Rightarrow> (string \<times> 'n json) list \<Rightarrow> nat
    \<Rightarrow> 'n http_request" where
  "sent_request pf baseUrl endpoint method cfg params t =
     \<lparr>url = forwarded cfg (target_url pf baseUrl endpoint cfg params t),
      http_method = method,
      headers = [(''X-MEXC-APIKEY'', mexcApiKey cfg), (''Content-Type'', ''application/json'')],
      body = None\<rparr>"

text \<open>The condition of the branch that encodes the target into the forwarder's query.\<close>

definition query_style_forwarder :: "'n AppSettings \<Rightarrow> bool" where
  "query_style_forwarder cfg =
     (case corsProxyUrl cfg of
        None \<Rightarrow> False
      | Some p \<Rightarrow> p \<noteq> [] \<and> trim p \<noteq> [] \<and> str_includes (trim p) ''?url='')"

text \<open>
  The private POST requests of a trace. The requests of the exchange gateway carry no body (the
  chat requests of the analysis do), and order creation is its only POST.
\<close>

fun private_posts :: "'n event list \<Rightarrow> 'n http_request list" where
  "private_posts [] = []"
| "private_posts (Dispatched r # evs) =
     (if http_method r = ''POST'' \<and> body r = None then r # private_posts evs
      else private_posts evs)"
| "private_posts (ev # evs) = private_posts evs"

abbreviation posts :: "'n run_state \<Rightarrow> 'n http_request list" where
  "posts s \<equiv> private_posts (trace s)"

abbreviation app_posts :: "'n app_state \<Rightarrow> 'n http_request list" where
  "app_posts app \<equiv> posts (run app)"

text \<open>The requests of a trace.\<close>

fun dispatched :: "'n event list \<Rightarrow> 'n http_request list" where
  "dispatched [] = []"
| "dispatched (Dispatched r # evs) = r # dispatched evs"
| "dispatched (ev # evs) = dispatched evs"

text \<open>A computation that leaves an observation \<open>Q\<close> of the state as it was.\<close>

definition keeps :: "('s \<Rightarrow> 'x) \<Rightarrow> ('s, 'a) io \<Rightarrow> bool" where
  "keeps Q m = (\<forall>s. Q (snd (m s)) = Q s)"

section \<open>A platform for examples\<close>

text \<open>
  Numbers for the examples: the rationals with the three special values, computed exactly
  (a double rounds; the examples use values where it does not). Integers are printed in
  decimal; no example prints another number, and such a number is printed as \<open>?\<close>. A string
  of digits is read as its value, any other string as NaN.
\<close>

datatype xnum = Fin rat | PosInf | NegInf | NaN

fun x_div :: "xnum \<Rightarrow> xnum \<Rightarrow> xnum" where
  "x_div (Fin a) (Fin b) =
     (if b \<noteq> 0 then Fin (a / b) else if 0 < a then PosInf else if a < 0 then NegInf else NaN)"
| "x_div (Fin a) PosInf = Fin 0"
| "x_div (Fin a) NegInf = Fin 0"
| "x_div PosInf (Fin b) = (if b < 0 then NegInf else PosInf)"
| "x_div NegInf (Fin b) = (if b < 0 then PosInf else NegInf)"
| "x_div a b = NaN"

fun x_mul :: "xnum \<Rightarrow> xnum \<Rightarrow> xnum" where
  "x_mul (Fin a) (Fin b) = Fin (a * b)"
| "x_mul PosInf (Fin b) = (if 0 < b then PosInf else if b < 0 then NegInf else NaN)"
| "x_mul NegInf (Fin b) = (if 0 < b then NegInf else if b < 0 then PosInf else NaN)"
| "x_mul (Fin a) PosInf = (if 0 < a then PosInf else if a < 0 then NegInf else NaN)"
| "x_mul (Fin a) NegInf = (if 0 < a then NegInf else if a < 0 then PosInf else NaN)"
| "x_mul PosInf PosInf = PosInf"
| "x_mul NegInf NegInf = PosInf"
| "x_mul PosInf NegInf = NegInf"
| "x_mul NegInf PosInf = NegInf"
| "x_mul a b = NaN"

fun x_add :: "xnum \<Rightarrow> xnum \<Rightarrow> xnum" where
  "x_add (Fin a) (Fin b) = Fin (a + b)"
| "x_add PosInf (Fin b) = PosInf"
| "x_add NegInf (Fin b) = NegInf"
| "x_add (Fin a) PosInf = PosInf"
| "x_add (Fin a) NegInf = NegInf"
| "x_add PosInf PosInf = PosInf"
| "x_add NegInf NegInf = NegInf"
| "x_add a b = NaN"

fun x_gt :: "xnum \<Rightarrow> xnum \<Rightarrow> bool" where
  "x_gt (Fin a) (Fin b) = (b < a)"
| "x_gt PosInf (Fin b) = True"
| "x_gt PosInf NegInf = True"
| "x_gt (Fin a) NegInf = True"
| "x_gt a b = False"

fun x_equal :: "xnum \<Rightarrow> xnum \<Rightarrow> bool" where
  "x_equal (Fin a) (Fin b) = (a = b)"
| "x_equal PosInf PosInf = True"
| "x_equal NegInf NegInf = True"
| "x_equal a b = False"

fun x_falsy :: "xnum \<Rightarrow> bool" where
  "x_falsy (Fin a) = (a = 0)"
| "x_falsy NaN = True"
| "x_falsy a = False"

fun x_str :: "nat \<Rightarrow> xnum \<Rightarrow> string" where
  "x_str radix (Fin a) =
     (if radix = 10 \<and> of_int \<lfloor>a\<rfloor> = a then
        (if a < 0 then ''-'' @ show_nat (nat (- \<lfloor>a\<rfloor>)) else show_nat (nat \<lfloor>a\<rfloor>))
      else ''?'')"
| "x_str radix PosInf = ''Infinity''"
| "x_str radix NegInf = ''-Infinity''"
| "x_str radix NaN = ''NaN''"

fun digits_value :: "nat \<Rightarrow> string \<Rightarrow> nat option" where
  "digits_value acc [] = Some acc"
| "digits_value acc (c # cs) =
     (if 48 \<le> (of_char c :: nat) \<and> (of_char c :: nat) \<le> 57
      then digits_value (10 * acc + ((of_char c :: nat) - 48)) cs else None)"

definition x_read :: "string \<Rightarrow> xnum" where
  "x_read s =
     (if s = [] then NaN
      else (case digits_value 0 s of None \<Rightarrow> NaN | Some n \<Rightarrow> Fin (of_nat n)))"

text \<open>
  The platform of the examples: the network \<open>net\<close>, a parser that knows the texts of \<open>parses\<close>,
  a Gemini client that answers \<open>gen\<close>, a clock that reads 1700000000000 whenever it is read, a
  random generator that draws a half, and a two-byte stand-in for the HMAC.
\<close>

definition demo_platform ::
  "(xnum http_request \<Rightarrow> fetch_outcome) \<Rightarrow> (string \<times> xnum json) list \<Rightarrow> js_error + string option
    \<Rightarrow> xnum platform" where
  "demo_platform net parses gen =
     \<lparr>num = Fin, nan = NaN, ndiv = x_div, nmul = x_mul, nadd = x_add, ngt = x_gt,
      nequal = x_equal, nfalsy = x_falsy, nstr = x_str,
      string_to_number = x_read, parseFloat_string = x_read,
      date_now = (\<lambda>k. 1700000000000),
      locale_time = (\<lambda>two_digit t. ''12:00:00''),
      math_random = (\<lambda>k. Fin (1 / 2)),
      hmac_sha256 = (\<lambda>key msg. [0xAB, 0x01]),
      fetch = net,
      json_parse =
        (\<lambda>txt. case map_of parses txt of
                 None \<Rightarrow> Inl (JsError SyntaxErrorC ''Unexpected token'')
               | Some v \<Rightarrow> Inr v),
      generateContent = (\<lambda>client p. gen),
      process_env_API_KEY = None\<rparr>"

text \<open>Response bodies and what they parse to.\<close>

definition decision_text :: string where
  \<open>decision_text = ''{"action":"LONG","leverage":5,"reason":"momentum","confidence":80}''\<close>

definition decision_value :: "xnum json" where
  "decision_value =
     JObj [(''action'', JStr ''LONG''), (''leverage'', JNum (Fin 5)),
           (''reason'', JStr ''momentum''), (''confidence'', JNum (Fin 80))]"

definition ok_body :: string where
  \<open>ok_body = ''{"success":true,"code":0,"data":[]}''\<close>

definition ok_value :: "xnum json" where
  "ok_value = JObj [(''success'', JBool True), (''code'', JNum (Fin 0)), (''data'', JArr [])]"

definition positions_body :: string where
  \<open>positions_body = ''{"success":true,"code":0,"data":[{"positionId":7,"symbol":"BTC_USDT","positionType":1,"holdAvgPrice":50000,"fairPrice":50500,"leverage":10,"unrealizedPnl":5,"margin":50,"liquidatePrice":45000},{"positionId":8,"symbol":"ETH_USDT","positionType":2,"holdAvgPrice":3000,"fairPrice":2990,"leverage":5,"unrealizedPnl":1,"margin":0,"liquidatePrice":3500}]}''\<close>

definition positions_value :: "xnum json" where
  "positions_value =
     JObj [(''success'', JBool True), (''code'', JNum (Fin 0)),
           (''data'',
            JArr [JObj [(''positionId'', JNum (Fin 7)), (''symbol'', JStr ''BTC_USDT''),
                        (''positionType'', JNum (Fin 1)), (''holdAvgPrice'', JNum (Fin 50000)),
                        (''fairPrice'', JNum (Fin 50500)), (''leverage'', JNum (Fin 10)),
                        (''unrealizedPnl'', JNum (Fin 5)), (''margin'', JNum (Fin 50)),
                        (''liquidatePrice'', JNum (Fin 45000))],
                  JObj [(''positionId'', JNum (Fin 8)), (''symbol'', JStr ''ETH_USDT''),
                        (''positionType'', JNum (Fin 2)), (''holdAvgPrice'', JNum (Fin 3000)),
                        (''fairPrice'', JNum (Fin 2990)), (''leverage'', JNum (Fin 5)),
                        (''unrealizedPnl'', JNum (Fin 1)), (''margin'', JNum (Fin 0)),
                        (''liquidatePrice'', JNum (Fin 3500))]])]"

definition ticker_body :: string where
  \<open>ticker_body = ''{"symbol":"BTCUSDT","lastPrice":"50000","priceChangePercent":"2","volume":"100"}''\<close>

definition ticker_value :: "xnum json" where
  "ticker_value =
     JObj [(''symbol'', JStr ''BTCUSDT''), (''lastPrice'', JStr ''50000''),
           (''priceChangePercent'', JStr ''2''), (''volume'', JStr ''100'')]"

definition demo_parses :: "(string \<times> xnum json) list" where
  "demo_parses =
     [(decision_text, decision_value), (ok_body, ok_value), (positions_body, positions_value),
      (ticker_body, ticker_value)]"

text \<open>
  A network where the deposit history answers 500, and the ticker, the open positions and every
  other endpoint of the exchange answer 200.
\<close>

definition demo_net :: "xnum http_request \<Rightarrow> fetch_outcome" where
  "demo_net req =
     (if prefix ''https://api.mexc.com/api/v3/capital/deposit/hisrec?'' (url req) then
        Responded \<lparr>ok = False, status = 500, content_type = Some ''text/html'',
                   body_text = ''Internal Server Error''\<rparr>
      else if prefix ''https://fapi.mexc.com/futures/api/v1/private/position/open_details?''
                (url req) then
        Responded \<lparr>ok = True, status = 200, content_type = Some ''application/json'',
                   body_text = positions_body\<rparr>
      else if prefix ''https://api.binance.com/'' (url req) then
        Responded \<lparr>ok = True, status = 200, content_type = Some ''application/json'',
                   body_text = ticker_body\<rparr>
      else
        Responded \<lparr>ok = True, status = 200, content_type = Some ''application/json'',
                   body_text = ok_body\<rparr>)"








definition demo :: "xnum platform" where
  "demo = demo_platform demo_net demo_parses (Inr (Some decision_text))"

definition demo_settings :: "xnum AppSettings" where
  "demo_settings =
     \<lparr>aiProvider = ''gemini'', geminiApiKey = Some ''g-key'', openaiApiKey = Some [],
      deepseekApiKey = Some [], mexcApiKey = ''mx0key'', mexcSecretKey = ''secret'',
      tradingSymbol = ''BTCUSDT'', defaultLeverage = Fin 10, riskPercent = Fin 2,
      isAutoTrading = True, intervalMinutes = Fin 1, isLiveMode = True,
      corsProxyUrl = Some [], supabaseUrl = [], supabaseAnonKey = []\<rparr>"

definition start_run :: "'n run_state" where
  "start_run = \<lparr>clock_reads = 0, random_draws = 0, geminiClient = None, trace = []\<rparr>"

definition demo_market :: "xnum MarketData" where
  "demo_market =
     \<lparr>symbol = ''BTCUSDT'', price = Fin 50000, change24h = Fin (21 / 10), volume = Fin 100,
      timestamp = 1699999999000, history = []\<rparr>"

definition demo_app :: "xnum AppSettings \<Rightarrow> xnum MarketData option \<Rightarrow> xnum app_state" where
  "demo_app cfg md =
     \<lparr>settings = cfg, marketData = md, spotBalances = [], futuresBalances = [],
      mexcPositions = [], mexcOrders = [], mexcTrades = [], mexcTransfers = [], logs = [],
      lastAction = None, isLoading = True, isAnalyzing = False, mexcStatus = DISCONNECTED,
      isLoggedIn = True, run = start_run\<rparr>"


section \<open>Evaluating the examples\<close>

lemma demo_platform_sel:
  "num (demo_platform net ps gen) = Fin"
  "nan (demo_platform net ps gen) = NaN"
  "ndiv (demo_platform net ps gen) = x_div"
  "nmul (demo_platform net ps gen) = x_mul"
  "nadd (demo_platform net ps gen) = x_add"
  "ngt (demo_platform net ps gen) = x_gt"
  "nequal (demo_platform net ps gen) = x_equal"
  "nfalsy (demo_platform net ps gen) = x_falsy"
  "nstr (demo_platform net ps gen) = x_str"
  "string_to_number (demo_platform net ps gen) = x_read"
  "parseFloat_string (demo_platform net ps gen) = x_read"
  "date_now (demo_platform net ps gen) k = 1700000000000"
  "locale_time (demo_platform net ps gen) b t = ''12:00:00''"
  "math_random (demo_platform net ps gen) k = Fin (1 / 2)"
  "hmac_sha256 (demo_platform net ps gen) key msg = [0xAB, 0x01]"
  "fetch (demo_platform net ps gen) = net"
  "json_parse (demo_platform net ps gen) txt =
     (case map_of ps txt of None \<Rightarrow> Inl (JsError SyntaxErrorC ''Unexpected token'') | Some v \<Rightarrow> Inr v)"
  "generateContent (demo_platform net ps gen) c p = gen"
  "process_env_API_KEY (demo_platform net ps gen) = None"
  by (simp_all add: demo_platform_def)

lemma demo_settings_sel:
  "aiProvider demo_settings = ''gemini''"
  "geminiApiKey demo_settings = Some ''g-key''"
  "openaiApiKey demo_settings = Some []"
  "deepseekApiKey demo_settings = Some []"
  "mexcApiKey demo_settings = ''mx0key''"
  "mexcSecretKey demo_settings = ''secret''"
  "tradingSymbol demo_settings = ''BTCUSDT''"
  "defaultLeverage demo_settings = Fin 10"
  "isAutoTrading demo_settings = True"
  "isLiveMode demo_settings = True"
  "corsProxyUrl demo_settings = Some []"
  by (simp_all add: demo_settings_def)

lemmas str_eval = form_encode_def form_keep_def is_alnum_def pct_def show_nat.simps
  encodeURIComponent_def uri_keep_def trim_def is_space_def endsWith_slash_def byte_hex_def
  URLSearchParams_toString_def spread_with_def

lemmas io_eval = io_bind_def io_return_def io_throw_def try_catch_def io_of_def emit_def
  Date_now_def Math_random_def await_fetch_def sign_def Let_def

section \<open>Private requests\<close>

lemma privateRequest_absent:
  "mexcApiKey cfg = [] \<or> mexcSecretKey cfg = [] \<Longrightarrow>
   privateRequest pf baseUrl endpoint method cfg params s = (Inl keys_missing, s)"
  by (simp add: privateRequest_def io_throw_def)

lemma privateRequest_state:
  assumes "mexcApiKey cfg \<noteq> []" "mexcSecretKey cfg \<noteq> []"
  shows "snd (privateRequest pf baseUrl endpoint method cfg params s) =
     s\<lparr>clock_reads := Suc (clock_reads s),
       trace := trace s @
         [ClockRead (date_now pf (clock_reads s)),
          Signed (query_string pf params (date_now pf (clock_reads s))) (mexcSecretKey cfg),
          Dispatched (sent_request pf baseUrl endpoint method cfg params (date_now pf (clock_reads s)))]\<rparr>"
  using assms
  by (simp add: privateRequest_def io_bind_def Date_now_def sign_def try_catch_def
      await_fetch_def io_of_def io_throw_def emit_def Let_def sent_request_def
      target_url_def query_string_def signature_of_def
      split: fetch_outcome.splits sum.splits prod.splits)

lemma forwarded_query_style:
  "query_style_forwarder cfg \<Longrightarrow>
   forwarded cfg target = trim (the (corsProxyUrl cfg)) @ encodeURIComponent target"
  by (auto simp: forwarded_def query_style_forwarder_def Let_def split: option.splits)

lemma forwarded_suffix:
  "\<not> query_style_forwarder cfg \<Longrightarrow> suffix target (forwarded cfg target)"
  by (auto simp: forwarded_def query_style_forwarder_def Let_def suffix_def split: option.splits)

text \<open>
  Claim C7, as amended. The string handed to the signer is the query string of the target URL,
  byte for byte: the target is base, endpoint, \<open>?\<close>, that string, \<open>&signature=\<close> and the
  signature. What is handed to \<^verbatim>\<open>fetch\<close> ends with the target as it is when no forwarder is set
  or the forwarder is path-style; behind a query-style forwarder (one that contains \<open>?url=\<close>) it
  is the forwarder followed by the percent-encoded target, in which the signed string no longer
  stands byte for byte.
\<close>

theorem signed_query_is_target_query:
  assumes "mexcApiKey cfg \<noteq> []" and "mexcSecretKey cfg \<noteq> []"
  shows "let t = date_now pf (clock_reads s);
             q = query_string pf params t;
             target = baseUrl @ endpoint @ ''?'' @ q @ ''&signature='' @ signature_of pf cfg q
         in \<exists>req. trace (snd (privateRequest pf baseUrl endpoint method cfg params s)) =
                     trace s @ [ClockRead t, Signed q (mexcSecretKey cfg), Dispatched req]
                 \<and> (if query_style_forwarder cfg
                     then url req = trim (the (corsProxyUrl cfg)) @ encodeURIComponent target
                     else suffix target (url req))"
proof -
  define t where "t = date_now pf (clock_reads s)"
  define q where "q = query_string pf params t"
  define target where "target = baseUrl @ endpoint @ ''?'' @ q @ ''&signature='' @ signature_of pf cfg q"
  have tr: "trace (snd (privateRequest pf baseUrl endpoint method cfg params s)) =
        trace s @ [ClockRead t, Signed q (mexcSecretKey cfg),
                   Dispatched (sent_request pf baseUrl endpoint method cfg params t)]"
    using assms by (simp add: privateRequest_state t_def q_def)
  have u: "url (sent_request pf baseUrl endpoint method cfg params t) = forwarded cfg target"
    by (simp add: sent_request_def target_url_def target_def q_def)
  have "if query_style_forwarder cfg
        then url (sent_request pf baseUrl endpoint method cfg params t) =
               trim (the (corsProxyUrl cfg)) @ encodeURIComponent target
        else suffix target (url (sent_request pf baseUrl endpoint method cfg params t))"
    using forwarded_query_style [of cfg target] forwarded_suffix [of cfg target]
    by (cases "query_style_forwarder cfg") (simp_all add: u)
  with tr show ?thesis
    unfolding Let_def t_def [symmetric] q_def [symmetric] target_def [symmetric] by blast
qed

text \<open>
  Claim C8. \<^verbatim>\<open>privateRequest\<close> throws with nothing done (no clock reading, so no timestamp; no
  call of the signer; no request) exactly when the API key or the secret is absent, and the error
  is then the one of the credential check. With both present that branch is not taken: the
  clock is read, the query string is signed and the request is handed to \<^verbatim>\<open>fetch\<close>.
\<close>

theorem privateRequest_rejects_iff_credential_absent:
  "((\<exists>e. privateRequest pf baseUrl endpoint method cfg params s = (Inl e, s))
      \<longleftrightarrow> (mexcApiKey cfg = [] \<or> mexcSecretKey cfg = []))
   \<and> (mexcApiKey cfg = [] \<or> mexcSecretKey cfg = [] \<longrightarrow>
        privateRequest pf baseUrl endpoint method cfg params s = (Inl keys_missing, s))
   \<and> (mexcApiKey cfg \<noteq> [] \<and> mexcSecretKey cfg \<noteq> [] \<longrightarrow>
        trace (snd (privateRequest pf baseUrl endpoint method cfg params s)) =
          trace s @
            [ClockRead (date_now pf (clock_reads s)),
             Signed (query_string pf params (date_now pf (clock_reads s))) (mexcSecretKey cfg),
             Dispatched (sent_request pf baseUrl endpoint method cfg params
                           (date_now pf (clock_reads s)))])"
proof (intro conjI impI)
  show "(\<exists>e. privateRequest pf baseUrl endpoint method cfg params s = (Inl e, s))
      \<longleftrightarrow> (mexcApiKey cfg = [] \<or> mexcSecretKey cfg = [])"
  proof
    assume "\<exists>e. privateRequest pf baseUrl endpoint method cfg params s = (Inl e, s)"
    then obtain e where e: "privateRequest pf baseUrl endpoint method cfg params s = (Inl e, s)"
      by blast
    show "mexcApiKey cfg = [] \<or> mexcSecretKey cfg = []"
    proof (rule ccontr)
      assume "\<not> (mexcApiKey cfg = [] \<or> mexcSecretKey cfg = [])"
      then have "clock_reads (snd (privateRequest pf baseUrl endpoint method cfg params s))
                 = Suc (clock_reads s)"
        by (simp add: privateRequest_state)
      with e show False by simp
    qed
  next
    assume "mexcApiKey cfg = [] \<or> mexcSecretKey cfg = []"
    then show "\<exists>e. privateRequest pf baseUrl endpoint method cfg params s = (Inl e, s)"
      using privateRequest_absent by blast
  qed
next
  assume "mexcApiKey cfg = [] \<or> mexcSecretKey cfg = []"
  then show "privateRequest pf baseUrl endpoint method cfg params s = (Inl keys_missing, s)"
    by (rule privateRequest_absent)
next
  assume "mexcApiKey cfg \<noteq> [] \<and> mexcSecretKey cfg \<noteq> []"
  then show "trace (snd (privateRequest pf baseUrl endpoint method cfg params s)) =
          trace s @
            [ClockRead (date_now pf (clock_reads s)),
             Signed (query_string pf params (date_now pf (clock_reads s))) (mexcSecretKey cfg),
             Dispatched (sent_request pf baseUrl endpoint method cfg params
                           (date_now pf (clock_reads s)))]"
    by (simp add: privateRequest_state)
qed

lemma demo_account_query:
  "query_string (demo_platform net ps gen) [] 1700000000000 = ''timestamp=1700000000000''"
  by (simp add: query_string_def str_eval)

lemma demo_account_request:
  "sent_request (demo_platform net ps gen) baseSpotUrl ''/api/v3/account'' ''GET'' demo_settings []
     1700000000000 =
   \<lparr>url = ''https://api.mexc.com/api/v3/account?timestamp=1700000000000&signature=ab01'',
    http_method = ''GET'',
    headers = [(''X-MEXC-APIKEY'', ''mx0key''), (''Content-Type'', ''application/json'')],
    body = None\<rparr>"
  by (simp add: sent_request_def target_url_def demo_account_query signature_of_def
      demo_platform_sel forwarded_def demo_settings_sel baseSpotUrl_def str_eval)

text \<open>Claim C8 at an example: without the secret, and with both credentials.\<close>

theorem privateRequest_rejects_witness:
  "privateRequest demo baseSpotUrl ''/api/v3/account'' ''GET'' (demo_settings\<lparr>mexcSecretKey := []\<rparr>) []
     start_run = (Inl (JsError ErrorC ''MEXC API Keys are missing.''), start_run)
   \<and> trace (snd (privateRequest demo baseSpotUrl ''/api/v3/account'' ''GET'' demo_settings [] start_run)) =
       [ClockRead 1700000000000, Signed ''timestamp=1700000000000'' ''secret'',
        Dispatched
          \<lparr>url = ''https://api.mexc.com/api/v3/account?timestamp=1700000000000&signature=ab01'',
           http_method = ''GET'',
           headers = [(''X-MEXC-APIKEY'', ''mx0key''), (''Content-Type'', ''application/json'')],
           body = None\<rparr>]"
proof -
  have absent: "mexcApiKey (demo_settings\<lparr>mexcSecretKey := []\<rparr>) = []
                \<or> mexcSecretKey (demo_settings\<lparr>mexcSecretKey := []\<rparr>) = []"
    by simp
  have present: "mexcApiKey demo_settings \<noteq> [] \<and> mexcSecretKey demo_settings \<noteq> []"
    by (simp add: demo_settings_sel)
  show ?thesis
    using privateRequest_rejects_iff_credential_absent
            [of demo baseSpotUrl "''/api/v3/account''" "''GET''"
                "demo_settings\<lparr>mexcSecretKey := []\<rparr>" "[]" start_run] absent
          privateRequest_rejects_iff_credential_absent
            [of demo baseSpotUrl "''/api/v3/account''" "''GET''" demo_settings "[]" start_run]
          present
    by (simp add: keys_missing_def start_run_def demo_def demo_platform_sel demo_settings_sel
        demo_account_query demo_account_request)
qed

lemma demo_history_query:
  "query_string (demo_platform net ps gen) [(''states'', JStr ''3,4'')] 1700000000000 =
   ''states=3%2C4&timestamp=1700000000000''"
  by (simp add: query_string_def str_eval)

text \<open>Claim C7 as amended, at an example with a path-style forwarder.\<close>

theorem signed_query_witness:
  "\<exists>req. trace (snd (privateRequest demo baseFuturesUrl
                         ''/futures/api/v1/private/order/list/history_orders'' ''GET''
                         (demo_settings\<lparr>corsProxyUrl := Some ''https://cors-anywhere.herokuapp.com/''\<rparr>)
                         [(''states'', JStr ''3,4'')] start_run)) =
           [ClockRead 1700000000000, Signed ''states=3%2C4&timestamp=1700000000000'' ''secret'',
            Dispatched req]
       \<and> suffix ''https://fapi.mexc.com/futures/api/v1/private/order/list/history_orders?states=3%2C4&timestamp=1700000000000&signature=ab01''
                 (url req)"
proof -
  let ?cfg = "demo_settings\<lparr>corsProxyUrl := Some ''https://cors-anywhere.herokuapp.com/''\<rparr>"
  have k: "mexcApiKey ?cfg \<noteq> []" and sk: "mexcSecretKey ?cfg \<noteq> []"
    by (simp_all add: demo_settings_sel)
  have nq: "\<not> query_style_forwarder ?cfg"
    by (simp add: query_style_forwarder_def str_eval)
  show ?thesis
    using signed_query_is_target_query [OF k sk, of demo start_run "[(''states'', JStr ''3,4'')]"
        baseFuturesUrl "''/futures/api/v1/private/order/list/history_orders''" "''GET''"] nq
    by (simp add: Let_def demo_def demo_platform_sel demo_settings_sel start_run_def
        demo_history_query signature_of_def baseFuturesUrl_def byte_hex_def)
qed

text \<open>
  Claim C7 as stated fails behind a query-style forwarder: the string that was signed does not
  occur in the URL that is transmitted.
\<close>

theorem signed_query_counterexample:
  "trace (snd (privateRequest demo baseFuturesUrl
                 ''/futures/api/v1/private/order/list/history_orders'' ''GET''
                 (demo_settings\<lparr>corsProxyUrl := Some ''https://proxy.example/?url=''\<rparr>)
                 [(''states'', JStr ''3,4'')] start_run)) =
     [ClockRead 1700000000000, Signed ''states=3%2C4&timestamp=1700000000000'' ''secret'',
      Dispatched
        \<lparr>url = ''https://proxy.example/?url=https%3A%2F%2Ffapi.mexc.com%2Ffutures%2Fapi%2Fv1%2Fprivate%2Forder%2Flist%2Fhistory_orders%3Fstates%3D3%252C4%26timestamp%3D1700000000000%26signature%3Dab01'',
         http_method = ''GET'',
         headers = [(''X-MEXC-APIKEY'', ''mx0key''), (''Content-Type'', ''application/json'')],
         body = None\<rparr>]
   \<and> \<not> str_includes
         ''https://proxy.example/?url=https%3A%2F%2Ffapi.mexc.com%2Ffutures%2Fapi%2Fv1%2Fprivate%2Forder%2Flist%2Fhistory_orders%3Fstates%3D3%252C4%26timestamp%3D1700000000000%26signature%3Dab01''
         ''states=3%2C4&timestamp=1700000000000''"
proof -
  let ?cfg = "demo_settings\<lparr>corsProxyUrl := Some ''https://proxy.example/?url=''\<rparr>"
  have k: "mexcApiKey ?cfg \<noteq> []" and sk: "mexcSecretKey ?cfg \<noteq> []"
    by (simp_all add: demo_settings_sel)
  have fw: "forwarded ?cfg target = ''https://proxy.example/?url='' @ encodeURIComponent target"
    for target
    by (simp add: forwarded_def trim_def is_space_def Let_def)
  have enc: "encodeURIComponent ''https://fapi.mexc.com/futures/api/v1/private/order/list/history_orders?states=3%2C4&timestamp=1700000000000&signature=ab01''
     = ''https%3A%2F%2Ffapi.mexc.com%2Ffutures%2Fapi%2Fv1%2Fprivate%2Forder%2Flist%2Fhistory_orders%3Fstates%3D3%252C4%26timestamp%3D1700000000000%26signature%3Dab01''"
    by (simp add: encodeURIComponent_def uri_keep_def is_alnum_def pct_def)
  have tr: "trace (snd (privateRequest demo baseFuturesUrl
                 ''/futures/api/v1/private/order/list/history_orders'' ''GET'' ?cfg
                 [(''states'', JStr ''3,4'')] start_run)) =
     [ClockRead 1700000000000, Signed ''states=3%2C4&timestamp=1700000000000'' ''secret'',
      Dispatched
        \<lparr>url = ''https://proxy.example/?url=https%3A%2F%2Ffapi.mexc.com%2Ffutures%2Fapi%2Fv1%2Fprivate%2Forder%2Flist%2Fhistory_orders%3Fstates%3D3%252C4%26timestamp%3D1700000000000%26signature%3Dab01'',
         http_method = ''GET'',
         headers = [(''X-MEXC-APIKEY'', ''mx0key''), (''Content-Type'', ''application/json'')],
         body = None\<rparr>]"
    using enc
    by (simp add: privateRequest_state [OF k sk] demo_def demo_platform_sel demo_settings_sel
        start_run_def demo_history_query sent_request_def target_url_def signature_of_def
        baseFuturesUrl_def byte_hex_def fw)
  have "\<not> str_includes
         ''https://proxy.example/?url=https%3A%2F%2Ffapi.mexc.com%2Ffutures%2Fapi%2Fv1%2Fprivate%2Forder%2Flist%2Fhistory_orders%3Fstates%3D3%252C4%26timestamp%3D1700000000000%26signature%3Dab01''
         ''states=3%2C4&timestamp=1700000000000''"
    by simp
  with tr show ?thesis by blast
qed

section \<open>executeTrade in simulation mode\<close>

lemma executeTrade_simulated:
  assumes "\<not> isLiveMode cfg"
  shows "executeTrade pf action cfg marketPrice s =
     (Inr (Fabricated
        \<lparr>pos_id = JStr (''sim-'' @ drop 7 (nstr pf 36 (math_random pf (random_draws s)))),
         pos_symbol = JStr (tradingSymbol cfg),
         side = (if strict_eq pf action (JStr ''LONG'') then LONG else SHORT),
         entryPrice = JNum marketPrice,
         currentPrice = JNum marketPrice,
         leverage = JNum (defaultLeverage cfg),
         pnl = JNum (num pf 0),
         pnlPercent = num pf 0,
         margin = JNum (num pf 100),
         liquidationPrice = JUndefined\<rparr>),
      s\<lparr>random_draws := Suc (random_draws s), trace := trace s @ [RandomDraw]\<rparr>)"
  using assms by (simp add: executeTrade_def io_bind_def io_return_def Math_random_def emit_def)

lemma dispatched_append: "dispatched (xs @ ys) = dispatched xs @ dispatched ys"
  by (induction xs rule: dispatched.induct) simp_all

text \<open>
  Claim C4. In simulation mode, for each of the actions LONG, SHORT and CLOSE, \<^verbatim>\<open>executeTrade\<close>
  returns a fabricated position whose entry price and current price are the market price it
  was given, whose leverage is the configuration's default leverage and whose pnl is 0. All it
  does to the outside is one random draw (for the identifier): no request is handed to
  \<^verbatim>\<open>fetch\<close>.
\<close>

theorem executeTrade_simulation_is_local:
  assumes "\<not> isLiveMode cfg"
    and "action = JStr ''LONG'' \<or> action = JStr ''SHORT'' \<or> action = JStr ''CLOSE''"
  shows "\<exists>p s'. executeTrade pf action cfg marketPrice s = (Inr (Fabricated p), s')
           \<and> entryPrice p = JNum marketPrice
           \<and> currentPrice p = JNum marketPrice
           \<and> leverage p = JNum (defaultLeverage cfg)
           \<and> pnl p = JNum (num pf 0)
           \<and> trace s' = trace s @ [RandomDraw]
           \<and> dispatched (trace s') = dispatched (trace s)"
  using assms(1) by (simp add: executeTrade_simulated dispatched_append)

text \<open>Claim C4 at an example: a simulated LONG at 50000 with default leverage 10.\<close>

theorem executeTrade_simulation_witness:
  "\<exists>p s'. executeTrade demo (JStr ''LONG'') (demo_settings\<lparr>isLiveMode := False\<rparr>) (Fin 50000)
             start_run = (Inr (Fabricated p), s')
         \<and> entryPrice p = JNum (Fin 50000)
         \<and> currentPrice p = JNum (Fin 50000)
         \<and> leverage p = JNum (Fin 10)
         \<and> pnl p = JNum (Fin 0)
         \<and> trace s' = [RandomDraw]
         \<and> dispatched (trace s') = []"
proof -
  have sim: "\<not> isLiveMode (demo_settings\<lparr>isLiveMode := False\<rparr>)" by simp
  have act: "(JStr ''LONG'' :: xnum json) = JStr ''LONG'' \<or> (JStr ''LONG'' :: xnum json) = JStr ''SHORT''
             \<or> (JStr ''LONG'' :: xnum json) = JStr ''CLOSE''" by simp
  show ?thesis
    using executeTrade_simulation_is_local [OF sim act, of demo "Fin 50000" start_run]
    by (simp add: demo_def demo_platform_sel demo_settings_sel start_run_def)
qed

text \<open>
  Claim C10. In simulation mode the fabricated position has side LONG when the action is LONG
  and side SHORT otherwise; in particular CLOSE yields SHORT, and the side is never NONE.
\<close>

theorem executeTrade_simulation_side:
  assumes "\<not> isLiveMode cfg"
  shows "\<exists>p s'. executeTrade pf action cfg marketPrice s = (Inr (Fabricated p), s')
           \<and> side p = (if strict_eq pf action (JStr ''LONG'') then LONG else SHORT)
           \<and> side p \<noteq> NONE
           \<and> (action = JStr ''LONG'' \<longrightarrow> side p = LONG)
           \<and> (action = JStr ''SHORT'' \<longrightarrow> side p = SHORT)
           \<and> (action = JStr ''CLOSE'' \<longrightarrow> side p = SHORT)"
  using assms by (simp add: executeTrade_simulated)

text \<open>Claim C10 at an example: a simulated CLOSE.\<close>

theorem executeTrade_close_witness:
  "\<exists>p s'. executeTrade demo (JStr ''CLOSE'') (demo_settings\<lparr>isLiveMode := False\<rparr>) (Fin 50000)
             start_run = (Inr (Fabricated p), s')
         \<and> side p = SHORT"
proof -
  have sim: "\<not> isLiveMode (demo_settings\<lparr>isLiveMode := False\<rparr>)" by simp
  show ?thesis
    using executeTrade_simulation_side [OF sim, of demo "JStr ''CLOSE''" "Fin 50000" start_run]
    by auto
qed

section \<open>Open positions\<close>

lemma io_map_Inr:
  "io_map f xs s = (Inr ys, s') \<Longrightarrow> list_all2 (\<lambda>x y. \<exists>s1 s2. f x s1 = (Inr y, s2)) xs ys"
proof (induction xs arbitrary: s ys s')
  case Nil
  then show ?case by (simp add: io_return_def)
next
  case (Cons x xs)
  from Cons.prems obtain y s1 ys' where
    fx: "f x s = (Inr y, s1)" and rest: "io_map f xs s1 = (Inr ys', s')" and ys: "ys = y # ys'"
    by (auto simp: io_bind_def io_return_def split: prod.splits sum.splits)
  from Cons.IH [OF rest] fx ys show ?case by auto
qed

lemma position_of_Inr:
  assumes "position_of pf raw s1 = (Inr p, s2)"
  shows "pnl p = field raw ''unrealizedPnl'' \<and> margin p = field raw ''margin''
       \<and> pnlPercent p =
           nmul pf (ndiv pf (to_number pf (field raw ''unrealizedPnl''))
                            (to_number pf (field raw ''margin''))) (num pf 100)"
  using assms
  by (auto simp: position_of_def io_bind_def io_return_def io_of_def Math_random_def
      split: sum.splits prod.splits if_splits)

lemma getOpenPositions_Inr:
  assumes "getOpenPositions pf cfg s = (Inr ps, s')"
  shows "\<exists>result s1.
           privateRequest pf baseFuturesUrl ''/futures/api/v1/private/position/open_details''
             ''GET'' cfg [] s = (Inr result, s1)
         \<and> list_all2 (\<lambda>raw p. \<exists>t1 t2. position_of pf raw t1 = (Inr p, t2))
              (case field result ''data'' of JArr raws \<Rightarrow> raws | _ \<Rightarrow> []) ps"
proof -
  from assms obtain result s1 data where
    pr: "privateRequest pf baseFuturesUrl ''/futures/api/v1/private/position/open_details''
             ''GET'' cfg [] s = (Inr result, s1)"
    and d: "get_prop result ''data'' = Inr data"
    and m: "(if \<not> truthy pf data then io_return [] else array_map data (position_of pf)) s1
             = (Inr ps, s')"
    by (auto simp: getOpenPositions_def io_bind_def io_of_def split: prod.splits sum.splits)
  from d have f: "field result ''data'' = data" by (simp add: field_def)
  show ?thesis
  proof (cases "truthy pf data")
    case False
    with m have "ps = []" by (simp add: io_return_def)
    moreover from False have "(case data of JArr raws \<Rightarrow> raws | _ \<Rightarrow> []) = []"
      by (cases data) simp_all
    ultimately show ?thesis using pr f by simp
  next
    case True
    with m have am: "array_map data (position_of pf) s1 = (Inr ps, s')" by simp
    then obtain raws where r: "data = JArr raws"
      by (cases data) (simp_all add: array_map_def io_throw_def)
    with am have "io_map (position_of pf) raws s1 = (Inr ps, s')" by (simp add: array_map_def)
    from io_map_Inr [OF this] show ?thesis using pr f r by auto
  qed
qed

text \<open>
  Claim C9. Every position \<^verbatim>\<open>getOpenPositions\<close> returns has
  \<open>pnlPercent = (pnl / margin) * 100\<close>, where \<open>pnl\<close> and \<open>margin\<close> are the payload's
  \<^verbatim>\<open>unrealizedPnl\<close> and \<^verbatim>\<open>margin\<close> of that position, the division and the multiplication being
  those of JavaScript numbers. Nothing is assumed of the margin: the division is made whatever
  it is, zero included.
\<close>

theorem pnlPercent_is_pnl_over_margin_times_100:
  assumes "getOpenPositions pf cfg s = (Inr ps, s')"
  shows "(\<forall>p \<in> set ps.
            pnlPercent p =
              nmul pf (ndiv pf (to_number pf (pnl p)) (to_number pf (margin p))) (num pf 100))
       \<and> (\<exists>result s1.
             privateRequest pf baseFuturesUrl ''/futures/api/v1/private/position/open_details''
               ''GET'' cfg [] s = (Inr result, s1)
           \<and> list_all2 (\<lambda>raw p. pnl p = field raw ''unrealizedPnl'' \<and> margin p = field raw ''margin'')
                (case field result ''data'' of JArr raws \<Rightarrow> raws | _ \<Rightarrow> []) ps)"
proof -
  from getOpenPositions_Inr [OF assms] obtain result s1 where
    pr: "privateRequest pf baseFuturesUrl ''/futures/api/v1/private/position/open_details''
             ''GET'' cfg [] s = (Inr result, s1)"
    and l: "list_all2 (\<lambda>raw p. \<exists>t1 t2. position_of pf raw t1 = (Inr p, t2))
              (case field result ''data'' of JArr raws \<Rightarrow> raws | _ \<Rightarrow> []) ps"
    by blast
  let ?raws = "case field result ''data'' of JArr raws \<Rightarrow> raws | _ \<Rightarrow> []"
  have l2: "list_all2 (\<lambda>raw p. pnl p = field raw ''unrealizedPnl'' \<and> margin p = field raw ''margin''
        \<and> pnlPercent p = nmul pf (ndiv pf (to_number pf (pnl p)) (to_number pf (margin p))) (num pf 100))
        ?raws ps"
    using l by (rule list_all2_mono) (auto dest: position_of_Inr)
  have "\<forall>p \<in> set ps.
            pnlPercent p =
              nmul pf (ndiv pf (to_number pf (pnl p)) (to_number pf (margin p))) (num pf 100)"
  proof
    fix p assume "p \<in> set ps"
    then obtain i where "i < length ps" "p = ps ! i" by (auto simp: in_set_conv_nth)
    with l2 show "pnlPercent p =
              nmul pf (ndiv pf (to_number pf (pnl p)) (to_number pf (margin p))) (num pf 100)"
      by (auto simp: list_all2_conv_all_nth)
  qed
  moreover have "list_all2 (\<lambda>raw p. pnl p = field raw ''unrealizedPnl'' \<and> margin p = field raw ''margin'')
                ?raws ps"
    using l2 by (rule list_all2_mono) simp
  ultimately show ?thesis using pr by blast
qed

lemmas service_eval = privateRequest_def forwarded_def classify_def classify_json_def
  classify_text_def mexc_error_def get_prop_def field_def array_map_def baseFuturesUrl_def
  baseSpotUrl_def getSpotBalance_def getFuturesBalance_def getOpenPositions_def
  getOpenOrders_def getTradeHistory_def getTransferHistory_try_def getTransferHistory_def
  position_of_def

lemmas demo_eval = demo_def demo_platform_sel demo_settings_sel start_run_def demo_net_def
  demo_parses_def positions_body_def ok_body_def decision_text_def ticker_body_def
  positions_value_def ok_value_def

text \<open>
  Claim C9 at an example: two positions, the second with margin 0, where the unguarded division
  gives Infinity.
\<close>

theorem pnlPercent_witness:
  "\<exists>ps s'. getOpenPositions demo demo_settings start_run = (Inr ps, s')
      \<and> map margin ps = [JNum (Fin 50), JNum (Fin 0)]
      \<and> map pnl ps = [JNum (Fin 5), JNum (Fin 1)]
      \<and> map pnlPercent ps = [Fin 10, PosInf]"
proof -
  let ?s' = "snd (getOpenPositions demo demo_settings start_run)"
  let ?p1 = "\<lparr>pos_id = JNum (Fin 7), pos_symbol = JStr ''BTC_USDT'', side = LONG,
               entryPrice = JNum (Fin 50000), currentPrice = JNum (Fin 50500),
               leverage = JNum (Fin 10), pnl = JNum (Fin 5),
               pnlPercent = x_mul (x_div (Fin 5) (Fin 50)) (Fin 100),
               margin = JNum (Fin 50), liquidationPrice = JNum (Fin 45000)\<rparr>"
  let ?p2 = "\<lparr>pos_id = JNum (Fin 8), pos_symbol = JStr ''ETH_USDT'', side = SHORT,
               entryPrice = JNum (Fin 3000), currentPrice = JNum (Fin 2990),
               leverage = JNum (Fin 5), pnl = JNum (Fin 1),
               pnlPercent = x_mul (x_div (Fin 1) (Fin 0)) (Fin 100),
               margin = JNum (Fin 0), liquidationPrice = JNum (Fin 3500)\<rparr>"
  have "fst (getOpenPositions demo demo_settings start_run) = Inr [?p1, ?p2]"
    by (simp add: service_eval demo_eval io_eval str_eval del: x_div.simps x_mul.simps)
  then have run: "getOpenPositions demo demo_settings start_run = (Inr [?p1, ?p2], ?s')"
    by (simp add: prod_eq_iff)
  from pnlPercent_is_pnl_over_margin_times_100 [OF run] run show ?thesis
    by (intro exI [of _ "[?p1, ?p2]"] exI [of _ ?s']) simp
qed

section \<open>Transfer history and account synchronisation\<close>

lemma getTransferHistory_returns:
  "\<exists>ts s'. getTransferHistory pf cfg s = (Inr ts, s')"
  by (cases "getTransferHistory_try pf cfg s"; cases "fst (getTransferHistory_try pf cfg s)")
     (simp_all add: getTransferHistory_def try_catch_def io_return_def)

lemma getTransferHistory_absorbs:
  "getTransferHistory_try pf cfg s = (Inl e, s1) \<Longrightarrow> getTransferHistory pf cfg s = (Inr [], s1)"
  by (simp add: getTransferHistory_def try_catch_def io_return_def)

lemma getTransferHistory_try_gateway_error:
  "privateRequest pf baseSpotUrl ''/api/v3/capital/deposit/hisrec'' ''GET'' cfg [] s = (Inl e, s1)
   \<Longrightarrow> getTransferHistory_try pf cfg s = (Inl e, s1)"
  by (simp add: getTransferHistory_try_def io_bind_def)

lemma refreshAccountData_connected:
  assumes "mexcApiKey cfg \<noteq> []" and "mexcSecretKey cfg \<noteq> []"
    and "getSpotBalance pf cfg (run app) = (Inr spot, s1)"
    and "getFuturesBalance pf cfg s1 = (Inr futures, s2)"
    and "getOpenPositions pf cfg s2 = (Inr positions, s3)"
    and "getOpenOrders pf cfg s3 = (Inr orders, s4)"
    and "getTradeHistory pf cfg s4 = (Inr trades, s5)"
    and "getTransferHistory pf cfg s5 = (Inr transfers, s6)"
  shows "refreshAccountData pf cfg True app =
     (Inr (), app\<lparr>spotBalances := spot, futuresBalances := futures, mexcPositions := positions,
                  mexcOrders := orders, mexcTrades := trades, mexcTransfers := transfers,
                  mexcStatus := CONNECTED, run := s6\<rparr>)"
  using assms
  by (cases app)
     (simp add: refreshAccountData_def try_catch_def io_bind_def in_run_def io_both_def modify_def)

text \<open>
  Claim C5. \<^verbatim>\<open>getTransferHistory\<close> returns for every configuration and never throws; whatever is
  thrown inside it (by the gateway, the missing credentials included, or while the entries are
  mapped) is absorbed and the result is the empty list. So when the credentials are there, the
  five other queries of an account synchronisation succeed and the transfer history fails inside,
  the synchronisation publishes the five results with no transfers and sets the status to
  CONNECTED.
\<close>

theorem transfer_history_failure_is_absorbed:
  "(\<exists>ts s'. getTransferHistory pf cfg s = (Inr ts, s'))
   \<and> (\<forall>e s1. getTransferHistory_try pf cfg s = (Inl e, s1)
         \<longrightarrow> getTransferHistory pf cfg s = (Inr [], s1))
   \<and> (\<forall>e s1. privateRequest pf baseSpotUrl ''/api/v3/capital/deposit/hisrec'' ''GET'' cfg [] s
                = (Inl e, s1)
         \<longrightarrow> getTransferHistory pf cfg s = (Inr [], s1))
   \<and> (mexcApiKey cfg = [] \<or> mexcSecretKey cfg = [] \<longrightarrow> getTransferHistory pf cfg s = (Inr [], s))
   \<and> (mexcApiKey cfg \<noteq> [] \<and> mexcSecretKey cfg \<noteq> []
       \<and> getSpotBalance pf cfg (run app) = (Inr spot, s1)
       \<and> getFuturesBalance pf cfg s1 = (Inr futures, s2)
       \<and> getOpenPositions pf cfg s2 = (Inr positions, s3)
       \<and> getOpenOrders pf cfg s3 = (Inr orders, s4)
       \<and> getTradeHistory pf cfg s4 = (Inr trades, s5)
       \<and> getTransferHistory_try pf cfg s5 = (Inl e, s6)
       \<longrightarrow> refreshAccountData pf cfg True app =
             (Inr (), app\<lparr>spotBalances := spot, futuresBalances := futures,
                          mexcPositions := positions, mexcOrders := orders, mexcTrades := trades,
                          mexcTransfers := [], mexcStatus := CONNECTED, run := s6\<rparr>))"
proof (intro conjI allI impI)
  show "\<exists>ts s'. getTransferHistory pf cfg s = (Inr ts, s')"
    by (rule getTransferHistory_returns)
next
  fix e s1 assume "getTransferHistory_try pf cfg s = (Inl e, s1)"
  then show "getTransferHistory pf cfg s = (Inr [], s1)" by (rule getTransferHistory_absorbs)
next
  fix e s1
  assume "privateRequest pf baseSpotUrl ''/api/v3/capital/deposit/hisrec'' ''GET'' cfg [] s = (Inl e, s1)"
  then show "getTransferHistory pf cfg s = (Inr [], s1)"
    by (intro getTransferHistory_absorbs getTransferHistory_try_gateway_error)
next
  assume "mexcApiKey cfg = [] \<or> mexcSecretKey cfg = []"
  then have "privateRequest pf baseSpotUrl ''/api/v3/capital/deposit/hisrec'' ''GET'' cfg [] s
             = (Inl keys_missing, s)"
    by (rule privateRequest_absent)
  then show "getTransferHistory pf cfg s = (Inr [], s)"
    by (intro getTransferHistory_absorbs getTransferHistory_try_gateway_error)
next
  assume a: "mexcApiKey cfg \<noteq> [] \<and> mexcSecretKey cfg \<noteq> []
       \<and> getSpotBalance pf cfg (run app) = (Inr spot, s1)
       \<and> getFuturesBalance pf cfg s1 = (Inr futures, s2)
       \<and> getOpenPositions pf cfg s2 = (Inr positions, s3)
       \<and> getOpenOrders pf cfg s3 = (Inr orders, s4)
       \<and> getTradeHistory pf cfg s4 = (Inr trades, s5)
       \<and> getTransferHistory_try pf cfg s5 = (Inl e, s6)"
  then have "getTransferHistory pf cfg s5 = (Inr [], s6)"
    by (intro getTransferHistory_absorbs) simp
  with a show "refreshAccountData pf cfg True app =
             (Inr (), app\<lparr>spotBalances := spot, futuresBalances := futures,
                          mexcPositions := positions, mexcOrders := orders, mexcTrades := trades,
                          mexcTransfers := [], mexcStatus := CONNECTED, run := s6\<rparr>)"
    by (elim conjE) (rule refreshAccountData_connected; assumption)
qed

lemmas account_eval = service_eval demo_eval io_eval str_eval spot_balance_of_def
  futures_balance_of_def order_of_def trade_of_def transfer_of_def

lemma demo_request:
  "sent_request demo baseUrl endpoint method demo_settings [] 1700000000000 =
   \<lparr>url = baseUrl @ endpoint @ ''?timestamp=1700000000000&signature=ab01'',
    http_method = method,
    headers = [(''X-MEXC-APIKEY'', ''mx0key''), (''Content-Type'', ''application/json'')],
    body = None\<rparr>"
  by (simp add: sent_request_def target_url_def query_string_def signature_of_def forwarded_def
      demo_eval str_eval)

lemma demo_getSpotBalance:
  "getSpotBalance demo demo_settings s =
   (Inr [], s\<lparr>clock_reads := Suc (clock_reads s),
              trace := trace s @
                [ClockRead 1700000000000, Signed ''timestamp=1700000000000'' ''secret'',
                 Dispatched (sent_request demo baseSpotUrl ''/api/v3/account'' ''GET''
                               demo_settings [] 1700000000000)]\<rparr>)"
  by (simp add: demo_request) (simp add: account_eval)

lemma demo_getFuturesBalance:
  "getFuturesBalance demo demo_settings s =
   (Inr [], s\<lparr>clock_reads := Suc (clock_reads s),
              trace := trace s @
                [ClockRead 1700000000000, Signed ''timestamp=1700000000000'' ''secret'',
                 Dispatched (sent_request demo baseFuturesUrl
                               ''/futures/api/v1/private/account/assets'' ''GET''
                               demo_settings [] 1700000000000)]\<rparr>)"
  by (simp add: demo_request) (simp add: account_eval)

lemma demo_getOpenPositions:
  "getOpenPositions demo demo_settings s =
   (Inr [\<lparr>pos_id = JNum (Fin 7), pos_symbol = JStr ''BTC_USDT'', side = LONG,
          entryPrice = JNum (Fin 50000), currentPrice = JNum (Fin 50500),
          leverage = JNum (Fin 10), pnl = JNum (Fin 5), pnlPercent = Fin 10,
          margin = JNum (Fin 50), liquidationPrice = JNum (Fin 45000)\<rparr>,
         \<lparr>pos_id = JNum (Fin 8), pos_symbol = JStr ''ETH_USDT'', side = SHORT,
          entryPrice = JNum (Fin 3000), currentPrice = JNum (Fin 2990),
          leverage = JNum (Fin 5), pnl = JNum (Fin 1), pnlPercent = PosInf,
          margin = JNum (Fin 0), liquidationPrice = JNum (Fin 3500)\<rparr>],
    s\<lparr>clock_reads := Suc (clock_reads s),
      trace := trace s @
        [ClockRead 1700000000000, Signed ''timestamp=1700000000000'' ''secret'',
         Dispatched (sent_request demo baseFuturesUrl
                       ''/futures/api/v1/private/position/open_details'' ''GET''
                       demo_settings [] 1700000000000)]\<rparr>)"
  by (simp add: demo_request) (simp add: account_eval)

lemma demo_getOpenOrders:
  "getOpenOrders demo demo_settings s =
   (Inr [], s\<lparr>clock_reads := Suc (clock_reads s),
              trace := trace s @
                [ClockRead 1700000000000, Signed ''timestamp=1700000000000'' ''secret'',
                 Dispatched (sent_request demo baseFuturesUrl
                               ''/futures/api/v1/private/order/list/open_orders'' ''GET''
                               demo_settings [] 1700000000000)]\<rparr>)"
  by (simp add: demo_request) (simp add: account_eval)

lemma demo_history_request:
  "sent_request demo baseFuturesUrl ''/futures/api/v1/private/order/list/history_orders'' ''GET''
     demo_settings [(''states'', JStr ''3,4'')] 1700000000000 =
   \<lparr>url = ''https://fapi.mexc.com/futures/api/v1/private/order/list/history_orders?states=3%2C4&timestamp=1700000000000&signature=ab01'',
    http_method = ''GET'',
    headers = [(''X-MEXC-APIKEY'', ''mx0key''), (''Content-Type'', ''application/json'')],
    body = None\<rparr>"
  by (simp add: sent_request_def target_url_def query_string_def signature_of_def forwarded_def
      demo_eval str_eval baseFuturesUrl_def)

lemma demo_getTradeHistory:
  "getTradeHistory demo demo_settings s =
   (Inr [], s\<lparr>clock_reads := Suc (clock_reads s),
              trace := trace s @
                [ClockRead 1700000000000, Signed ''states=3%2C4&timestamp=1700000000000'' ''secret'',
                 Dispatched (sent_request demo baseFuturesUrl
                               ''/futures/api/v1/private/order/list/history_orders'' ''GET''
                               demo_settings [(''states'', JStr ''3,4'')] 1700000000000)]\<rparr>)"
  by (simp add: demo_history_request) (simp add: account_eval)

lemma demo_getTransferHistory_try:
  "getTransferHistory_try demo demo_settings s =
   (Inl (JsError ErrorC ''Proxy/Network Error: Internal Server Error...''),
    s\<lparr>clock_reads := Suc (clock_reads s),
      trace := trace s @
        [ClockRead 1700000000000, Signed ''timestamp=1700000000000'' ''secret'',
         Dispatched (sent_request demo baseSpotUrl ''/api/v3/capital/deposit/hisrec'' ''GET''
                       demo_settings [] 1700000000000)]\<rparr>)"
  by (simp add: demo_request) (simp add: account_eval)

text \<open>
  Claim C5 at an example: the deposit history answers 500, the five other endpoints answer 200.
\<close>

theorem transfer_history_failure_witness:
  "fst (getTransferHistory demo demo_settings start_run) = Inr []
   \<and> fst (refreshAccountData demo demo_settings True (demo_app demo_settings None)) = Inr ()
   \<and> mexcStatus (snd (refreshAccountData demo demo_settings True (demo_app demo_settings None)))
       = CONNECTED
   \<and> mexcTransfers (snd (refreshAccountData demo demo_settings True (demo_app demo_settings None)))
       = []
   \<and> map pos_id
         (mexcPositions (snd (refreshAccountData demo demo_settings True (demo_app demo_settings None))))
       = [JNum (Fin 7), JNum (Fin 8)]"
proof -
  let ?app = "demo_app demo_settings None"
  note C5 = transfer_history_failure_is_absorbed
  have t: "getTransferHistory demo demo_settings start_run = (Inr [], snd (getTransferHistory_try demo demo_settings start_run))"
    using C5 [of demo demo_settings start_run, THEN conjunct2, THEN conjunct1, rule_format,
              of "JsError ErrorC ''Proxy/Network Error: Internal Server Error...''"
                 "snd (getTransferHistory_try demo demo_settings start_run)"]
    by (simp add: demo_getTransferHistory_try)
  let ?S1 = "snd (getSpotBalance demo demo_settings (run ?app))"
  let ?S2 = "snd (getFuturesBalance demo demo_settings ?S1)"
  let ?S3 = "snd (getOpenPositions demo demo_settings ?S2)"
  let ?S4 = "snd (getOpenOrders demo demo_settings ?S3)"
  let ?S5 = "snd (getTradeHistory demo demo_settings ?S4)"
  let ?S6 = "snd (getTransferHistory_try demo demo_settings ?S5)"
  let ?ps = "fst (getOpenPositions demo demo_settings ?S2)"
  have hyp: "mexcApiKey demo_settings \<noteq> [] \<and> mexcSecretKey demo_settings \<noteq> []
       \<and> getSpotBalance demo demo_settings (run ?app) = (Inr [], ?S1)
       \<and> getFuturesBalance demo demo_settings ?S1 = (Inr [], ?S2)
       \<and> getOpenPositions demo demo_settings ?S2 = (?ps, ?S3)
       \<and> getOpenOrders demo demo_settings ?S3 = (Inr [], ?S4)
       \<and> getTradeHistory demo demo_settings ?S4 = (Inr [], ?S5)
       \<and> getTransferHistory_try demo demo_settings ?S5
           = (Inl (JsError ErrorC ''Proxy/Network Error: Internal Server Error...''), ?S6)"
    by (simp add: demo_settings_sel demo_getSpotBalance demo_getFuturesBalance
        demo_getOpenOrders demo_getTradeHistory demo_getTransferHistory_try)
  have ps: "?ps = Inr (projr ?ps)"
    by (simp add: demo_getOpenPositions)
  have sync: "refreshAccountData demo demo_settings True ?app =
         (Inr (), ?app\<lparr>spotBalances := [], futuresBalances := [], mexcPositions := projr ?ps,
                       mexcOrders := [], mexcTrades := [], mexcTransfers := [],
                       mexcStatus := CONNECTED, run := ?S6\<rparr>)"
    using hyp
    by (subst (asm) ps)
       (rule C5 [THEN conjunct2, THEN conjunct2, THEN conjunct2, THEN conjunct2, rule_format])
  show ?thesis
    by (simp add: t sync demo_getOpenPositions)
qed

section \<open>The decision provider\<close>



lemma analyze_passes:
  "analyze_try pf cfg (build_prompt data currentPositionSide) s = (Inr d, s')
   \<Longrightarrow> analyze pf cfg data currentPositionSide s = (Inr d, s')"
  by (simp add: analyze_def try_catch_def io_return_def)


















section \<open>The market poller\<close>

lemma slice_last_length: "length (slice_last k xs) \<le> k"
  by (simp add: slice_last_def)

lemma slice_last_full:
  "length xs = k \<Longrightarrow> 0 < k \<Longrightarrow> slice_last k (xs @ [x]) = tl xs @ [x]"
  by (cases xs) (simp_all add: slice_last_def)

lemma slice_last_short:
  "length xs < k \<Longrightarrow> slice_last k (xs @ [x]) = xs @ [x]"
  by (simp add: slice_last_def)

text \<open>What a tick leaves: the snapshot as it was, or a snapshot with one more sample.\<close>

lemma refreshMarket_cases:
  "marketData (snd (refreshMarket pf cfg app)) = marketData app
   \<or> (\<exists>m' x. marketData (snd (refreshMarket pf cfg app)) = Some m'
         \<and> history m' =
             slice_last 50 ((case marketData app of None \<Rightarrow> [] | Some prev \<Rightarrow> history prev) @ [x]))"
  by (cases app)
     (auto simp: refreshMarket_def try_catch_def io_bind_def in_run_def modify_def Let_def
           split: prod.splits sum.splits)

lemma refreshMarket_bounded:
  assumes "\<forall>m. marketData app = Some m \<longrightarrow> length (history m) \<le> 50"
  shows "\<forall>m'. marketData (snd (refreshMarket pf cfg app)) = Some m' \<longrightarrow> length (history m') \<le> 50"
  using refreshMarket_cases [of pf cfg app] assms
  by (auto simp: slice_last_length)

lemma poll_bounded:
  "\<forall>m. marketData app = Some m \<longrightarrow> length (history m) \<le> 50
   \<Longrightarrow> \<forall>m'. marketData (poll pf cfg n app) = Some m' \<longrightarrow> length (history m') \<le> 50"
proof (induction n arbitrary: app)
  case 0
  then show ?case by simp
next
  case (Suc n)
  from refreshMarket_bounded [OF Suc.prems]
  have "\<forall>m'. marketData (snd (refreshMarket pf cfg app)) = Some m' \<longrightarrow> length (history m') \<le> 50" .
  from Suc.IH [OF this] show ?case by simp
qed

lemma refreshMarket_appends:
  assumes "getTicker pf (tradingSymbol cfg) (run app) = (Inr ticker, s1)"
  shows "\<exists>m'. marketData (snd (refreshMarket pf cfg app)) = Some m'
           \<and> history m' =
               slice_last 50
                 ((case marketData app of None \<Rightarrow> [] | Some prev \<Rightarrow> history prev) @
                  [\<lparr>time = locale_time pf True (date_now pf (clock_reads s1)),
                    sample_price = price ticker\<rparr>])"
  using assms
  by (cases app)
     (simp add: refreshMarket_def try_catch_def io_bind_def in_run_def modify_def Let_def
        Date_now_def)

text \<open>
  Claim C6. After any number of ticks of the market poller the history has at most 50 samples,
  from the start (no snapshot) and from any snapshot that has at most 50. A tick whose ticker
  request succeeds appends its sample; when the history was full (50 samples) the result is the
  old history without its first sample, in the same order, followed by the new sample.
\<close>

theorem history_bounded_and_oldest_evicted:
  "((\<forall>m. marketData app = Some m \<longrightarrow> length (history m) \<le> 50)
      \<longrightarrow> (\<forall>m'. marketData (poll pf cfg n app) = Some m' \<longrightarrow> length (history m') \<le> 50))
   \<and> (marketData app = None
      \<longrightarrow> (\<forall>m'. marketData (poll pf cfg n app) = Some m' \<longrightarrow> length (history m') \<le> 50))
   \<and> (\<forall>ticker s1. getTicker pf (tradingSymbol cfg) (run app) = (Inr ticker, s1) \<longrightarrow>
         (let old = (case marketData app of None \<Rightarrow> [] | Some prev \<Rightarrow> history prev);
              x = \<lparr>time = locale_time pf True (date_now pf (clock_reads s1)),
                   sample_price = price ticker\<rparr>
          in \<exists>m'. marketData (snd (refreshMarket pf cfg app)) = Some m'
                \<and> length (history m') \<le> 50
                \<and> (length old = 50 \<longrightarrow> history m' = tl old @ [x])
                \<and> (length old < 50 \<longrightarrow> history m' = old @ [x])))"
proof -
  have bounded: "(\<forall>m. marketData app = Some m \<longrightarrow> length (history m) \<le> 50)
      \<longrightarrow> (\<forall>m'. marketData (poll pf cfg n app) = Some m' \<longrightarrow> length (history m') \<le> 50)"
    using poll_bounded [of app pf cfg n] by blast
  have from_start: "marketData app = None
      \<longrightarrow> (\<forall>m'. marketData (poll pf cfg n app) = Some m' \<longrightarrow> length (history m') \<le> 50)"
    using poll_bounded [of app pf cfg n] by simp
  have evicts: "\<forall>ticker s1. getTicker pf (tradingSymbol cfg) (run app) = (Inr ticker, s1) \<longrightarrow>
         (let old = (case marketData app of None \<Rightarrow> [] | Some prev \<Rightarrow> history prev);
              x = \<lparr>time = locale_time pf True (date_now pf (clock_reads s1)),
                   sample_price = price ticker\<rparr>
          in \<exists>m'. marketData (snd (refreshMarket pf cfg app)) = Some m'
                \<and> length (history m') \<le> 50
                \<and> (length old = 50 \<longrightarrow> history m' = tl old @ [x])
                \<and> (length old < 50 \<longrightarrow> history m' = old @ [x]))"
  proof (intro allI impI)
    fix ticker s1
    assume "getTicker pf (tradingSymbol cfg) (run app) = (Inr ticker, s1)"
    from refreshMarket_appends [OF this]
    show "let old = (case marketData app of None \<Rightarrow> [] | Some prev \<Rightarrow> history prev);
              x = \<lparr>time = locale_time pf True (date_now pf (clock_reads s1)),
                   sample_price = price ticker\<rparr>
          in \<exists>m'. marketData (snd (refreshMarket pf cfg app)) = Some m'
                \<and> length (history m') \<le> 50
                \<and> (length old = 50 \<longrightarrow> history m' = tl old @ [x])
                \<and> (length old < 50 \<longrightarrow> history m' = old @ [x])"
      by (auto simp: Let_def slice_last_length slice_last_full slice_last_short)
  qed
  from bounded from_start evicts show ?thesis by (intro conjI)
qed

lemma demo_getTicker:
  "getTicker demo ''BTCUSDT'' s =
   (Inr \<lparr>symbol = ''BTCUSDT'', price = Fin 50000, change24h = Fin 2, volume = Fin 100,
         timestamp = 1700000000000\<rparr>,
    s\<lparr>clock_reads := Suc (clock_reads s),
      trace := trace s @
        [Dispatched \<lparr>url = ''https://api.binance.com/api/v3/ticker/24hr?symbol=BTCUSDT'',
                     http_method = ''GET'', headers = [], body = None\<rparr>,
         ClockRead 1700000000000]\<rparr>)"
  by (simp add: getTicker_def toUpperCase_def demo_eval io_eval get_prop_def field_def
      parseFloat_def ticker_value_def x_read_def)

text \<open>
  Claim C6 at two examples: three ticks from the start, and one tick on a history of 50 samples.
\<close>

theorem history_witness:
  "(\<exists>m'. marketData (poll demo demo_settings 3 (demo_app demo_settings None)) = Some m'
         \<and> length (history m') = 3)
   \<and> (let old = map (\<lambda>i. \<lparr>time = ''11:00:00'', sample_price = Fin (of_nat i)\<rparr>) [0..<50]
      in \<exists>m'. marketData (snd (refreshMarket demo demo_settings
                                  (demo_app demo_settings (Some (demo_market\<lparr>history := old\<rparr>)))))
                = Some m'
             \<and> length (history m') = 50
             \<and> history m' = tl old @ [\<lparr>time = ''12:00:00'', sample_price = Fin 50000\<rparr>])"
proof -
  let ?old = "map (\<lambda>i. \<lparr>time = ''11:00:00'', sample_price = Fin (of_nat i)\<rparr>) [0..<50]"
  let ?app = "demo_app demo_settings (Some (demo_market\<lparr>history := ?old\<rparr>))"
  let ?x = "\<lparr>time = ''12:00:00'', sample_price = Fin 50000\<rparr> :: xnum sample"
  note C6 = history_bounded_and_oldest_evicted
  let ?start = "demo_app demo_settings None"
  have tick: "marketData (snd (refreshMarket demo demo_settings app)) =
      Some \<lparr>symbol = ''BTCUSDT'', price = Fin 50000, change24h = Fin 2, volume = Fin 100,
            timestamp = 1700000000000,
            history = slice_last 50
                        ((case marketData app of None \<Rightarrow> [] | Some prev \<Rightarrow> history prev) @ [?x])\<rparr>"
    for app
    by (cases app)
       (simp add: refreshMarket_def try_catch_def io_bind_def in_run_def modify_def Let_def
          Date_now_def demo_getTicker demo_settings_sel emit_def,
        simp add: demo_def demo_platform_sel)
  have three: "\<exists>m'. marketData (poll demo demo_settings 3 ?start) = Some m'
                    \<and> length (history m') = 3"
    using C6 [of ?start demo demo_settings 3, THEN conjunct2, THEN conjunct1]
    by (simp add: numeral_3_eq_3 tick demo_app_def slice_last_def)
  have t: "getTicker demo (tradingSymbol demo_settings) (run ?app) =
             (Inr \<lparr>symbol = ''BTCUSDT'', price = Fin 50000, change24h = Fin 2, volume = Fin 100,
                   timestamp = 1700000000000\<rparr>,
              snd (getTicker demo ''BTCUSDT'' (run ?app)))"
    by (simp add: demo_settings_sel demo_getTicker)
  have full: "length ?old = 50" by simp
  have "\<exists>m'. marketData (snd (refreshMarket demo demo_settings ?app)) = Some m'
             \<and> history m' = tl ?old @ [?x]"
    using C6 [of ?app demo demo_settings 0, THEN conjunct2, THEN conjunct2, rule_format, OF t] full
    by (auto simp add: Let_def demo_app_def demo_market_def demo_def demo_platform_sel)
  then obtain m' where m': "marketData (snd (refreshMarket demo demo_settings ?app)) = Some m'"
    and h: "history m' = tl ?old @ [?x]"
    by blast
  from h have "length (history m') = 50" by simp
  with m' h have evict: "\<exists>m'. marketData (snd (refreshMarket demo demo_settings ?app)) = Some m'
             \<and> length (history m') = 50
             \<and> history m' = tl ?old @ [?x]"
    by blast
  from three evict show ?thesis by (simp add: Let_def)
qed

section \<open>The trading loop\<close>












lemma after_analysis_executing:
  "isLiveMode cfg \<Longrightarrow> get_prop d ''action'' = Inr action
   \<Longrightarrow> \<not> strict_eq pf action (JStr ''WAIT'')
   \<Longrightarrow> after_analysis pf cfg d = Some EXECUTING"
  by (simp add: after_analysis_def)









section \<open>What a computation leaves unobserved\<close>

lemma keepsI: "(\<And>s. Q (snd (m s)) = Q s) \<Longrightarrow> keeps Q m"
  by (simp add: keeps_def)

lemma keepsD: "keeps Q m \<Longrightarrow> Q (snd (m s)) = Q s"
  by (simp add: keeps_def)

lemma keeps_return: "keeps Q (io_return a)"
  by (simp add: keeps_def io_return_def)

lemma keeps_throw: "keeps Q (io_throw e)"
  by (simp add: keeps_def io_throw_def)

lemma keeps_of: "keeps Q (io_of r)"
  by (simp add: keeps_def io_of_def)

lemma keeps_bind:
  assumes "keeps Q m" and "\<And>a. keeps Q (f a)"
  shows "keeps Q (io_bind m f)"
proof (rule keepsI)
  fix s
  obtain r s' where ms: "m s = (r, s')" by (cases "m s")
  with keepsD [OF assms(1), of s] have q: "Q s' = Q s" by simp
  show "Q (snd (io_bind m f s)) = Q s"
  proof (cases r)
    case (Inl e)
    with ms q show ?thesis by (simp add: io_bind_def)
  next
    case (Inr a)
    with ms q keepsD [OF assms(2), of a s'] show ?thesis by (simp add: io_bind_def)
  qed
qed

lemma keeps_try_catch:
  assumes "keeps Q m" and "\<And>e. keeps Q (h e)"
  shows "keeps Q (try_catch m h)"
proof (rule keepsI)
  fix s
  obtain r s' where ms: "m s = (r, s')" by (cases "m s")
  with keepsD [OF assms(1), of s] have q: "Q s' = Q s" by simp
  show "Q (snd (try_catch m h s)) = Q s"
  proof (cases r)
    case (Inl e)
    with ms q keepsD [OF assms(2), of e s'] show ?thesis by (simp add: try_catch_def)
  next
    case (Inr a)
    with ms q show ?thesis by (simp add: try_catch_def)
  qed
qed

lemma keeps_both:
  assumes "keeps Q m1" and "keeps Q m2"
  shows "keeps Q (io_both m1 m2)"
proof (rule keepsI)
  fix s
  obtain r1 s1 where m1: "m1 s = (r1, s1)" by (cases "m1 s")
  obtain r2 s2 where m2: "m2 s1 = (r2, s2)" by (cases "m2 s1")
  from keepsD [OF assms(1), of s] m1 have "Q s1 = Q s" by simp
  moreover from keepsD [OF assms(2), of s1] m2 have "Q s2 = Q s1" by simp
  ultimately show "Q (snd (io_both m1 m2 s)) = Q s"
    using m1 m2 by (simp add: io_both_def)
qed

lemma keeps_if: "keeps Q a \<Longrightarrow> keeps Q b \<Longrightarrow> keeps Q (if c then a else b)"
  by simp

lemma keeps_io_map:
  assumes "\<And>x. keeps Q (f x)"
  shows "keeps Q (io_map f xs)"
  by (induction xs) (auto intro!: keeps_return keeps_bind assms)

lemma keeps_array_map:
  assumes "\<And>x. keeps Q (f x)"
  shows "keeps Q (array_map v f)"
  by (cases v) (auto simp: array_map_def intro!: keeps_throw keeps_io_map assms)

lemma keeps_in_run:
  assumes "keeps Q m"
  shows "keeps (\<lambda>app :: 'n app_state. Q (run app)) (in_run m)"
proof (rule keepsI)
  fix app :: "'n app_state"
  obtain r s' where "m (run app) = (r, s')" by (cases "m (run app)")
  with keepsD [OF assms, of "run app"] show "Q (run (snd (in_run m app))) = Q (run app)"
    by (simp add: in_run_def)
qed

lemma keeps_modify: "(\<And>s. Q (f s) = Q s) \<Longrightarrow> keeps Q (modify f)"
  by (simp add: keeps_def modify_def)

section \<open>The private POST requests of the services\<close>

lemma private_posts_append:
  "private_posts (xs @ ys) = private_posts xs @ private_posts ys"
  by (induction xs rule: private_posts.induct) simp_all

lemma posts_Date_now: "keeps posts (Date_now pf)"
  by (simp add: keeps_def Date_now_def emit_def private_posts_append Let_def)

lemma posts_Math_random: "keeps posts (Math_random pf)"
  by (simp add: keeps_def Math_random_def emit_def private_posts_append)

lemma posts_getGemini: "keeps posts (getGemini k)"
  by (simp add: keeps_def getGemini_def split: option.splits)

lemma posts_generateContent: "keeps posts (await_generateContent pf client p)"
  by (simp add: keeps_def await_generateContent_def emit_def private_posts_append)

lemma posts_await_fetch:
  "\<not> (http_method req = ''POST'' \<and> body req = None) \<Longrightarrow> keeps posts (await_fetch pf req)"
  by (auto simp: keeps_def await_fetch_def emit_def private_posts_append split: fetch_outcome.splits)

lemma posts_privateRequest:
  "method \<noteq> ''POST'' \<Longrightarrow> keeps posts (privateRequest pf baseUrl endpoint method cfg params)"
proof (rule keepsI)
  fix s
  assume m: "method \<noteq> ''POST''"
  show "posts (snd (privateRequest pf baseUrl endpoint method cfg params s)) = posts s"
  proof (cases "mexcApiKey cfg = [] \<or> mexcSecretKey cfg = []")
    case True
    then show ?thesis by (simp add: privateRequest_absent)
  next
    case False
    with m show ?thesis
      by (simp add: privateRequest_state private_posts_append sent_request_def)
  qed
qed

lemmas keeps_intros = keeps_return keeps_throw keeps_of keeps_bind keeps_try_catch keeps_both
  keeps_if keeps_io_map keeps_array_map posts_Date_now posts_Math_random posts_getGemini
  posts_generateContent posts_privateRequest

lemma posts_getSpotBalance: "keeps posts (getSpotBalance pf cfg)"
  unfolding getSpotBalance_def spot_balance_of_def by (intro keeps_intros) simp

lemma posts_getFuturesBalance: "keeps posts (getFuturesBalance pf cfg)"
  unfolding getFuturesBalance_def futures_balance_of_def by (intro keeps_intros) simp

lemma posts_getOpenPositions: "keeps posts (getOpenPositions pf cfg)"
  unfolding getOpenPositions_def position_of_def by (intro keeps_intros) simp

lemma posts_getOpenOrders: "keeps posts (getOpenOrders pf cfg)"
  unfolding getOpenOrders_def order_of_def by (intro keeps_intros) simp

lemma posts_getTradeHistory: "keeps posts (getTradeHistory pf cfg)"
  unfolding getTradeHistory_def trade_of_def by (intro keeps_intros) simp

lemma posts_getTransferHistory: "keeps posts (getTransferHistory pf cfg)"
  unfolding getTransferHistory_def getTransferHistory_try_def transfer_of_def
  by (intro keeps_intros) simp

lemma posts_chat_completion: "keeps posts (chat_completion pf endpoint model_name apiKey p)"
  unfolding chat_completion_def
  by (intro keeps_intros posts_await_fetch) (simp add: chat_post_def)

lemma posts_analyze: "keeps posts (analyze pf cfg data currentPositionSide)"
  unfolding analyze_def analyze_try_def Let_def
  by (intro keeps_intros posts_chat_completion)

section \<open>The trading cycle\<close>

lemma keeps_case_prod: "(\<And>x y. keeps Q (f x y)) \<Longrightarrow> keeps Q (case p of (x, y) \<Rightarrow> f x y)"
  by (cases p) simp

lemma addLog_eq:
  "addLog pf ty message app =
   (Inr (),
    app\<lparr>run := (run app)\<lparr>clock_reads := Suc (Suc (clock_reads (run app))),
                           trace := trace (run app) @
                             [ClockRead (date_now pf (clock_reads (run app))),
                              ClockRead (date_now pf (Suc (clock_reads (run app))))]\<rparr>,
        logs := take 100
                  (\<lparr>log_id = show_nat (date_now pf (clock_reads (run app))),
                    log_timestamp = locale_time pf False (date_now pf (Suc (clock_reads (run app)))),
                    log_type = ty, log_message = message\<rparr> # logs app)\<rparr>)"
  by (cases app)
     (simp add: addLog_def io_bind_def in_run_def Date_now_def emit_def modify_def Let_def)

lemma posts_addLog: "keeps app_posts (addLog pf ty message)"
  by (simp add: keeps_def addLog_eq private_posts_append)

lemma posts_refreshAccountData: "keeps app_posts (refreshAccountData pf cfg loggedIn)"
  unfolding refreshAccountData_def
  by (intro keeps_if keeps_try_catch keeps_bind keeps_case_prod keeps_modify posts_addLog
        keeps_in_run [where Q = posts] keeps_both posts_getSpotBalance posts_getFuturesBalance
        posts_getOpenPositions posts_getOpenOrders posts_getTradeHistory
        posts_getTransferHistory)
     simp_all

lemma refreshAccountData_returns:
  "fst (refreshAccountData pf cfg loggedIn app) = Inr ()"
proof (cases "mexcApiKey cfg = [] \<or> mexcSecretKey cfg = [] \<or> \<not> loggedIn")
  case True
  then show ?thesis by (simp add: refreshAccountData_def modify_def)
next
  case False
  then show ?thesis
    by (simp add: refreshAccountData_def try_catch_def io_bind_def addLog_eq modify_def
        split: prod.splits sum.splits)
qed

lemma refreshAccountData_then:
  "(case refreshAccountData pf cfg loggedIn app of
      (Inl e, s') \<Rightarrow> X e s' | (Inr a, s') \<Rightarrow> Y a s') =
   Y () (snd (refreshAccountData pf cfg loggedIn app))"
  using refreshAccountData_returns [of pf cfg loggedIn app]
  by (cases "refreshAccountData pf cfg loggedIn app") simp

lemma try_catch_bind:
  "try_catch (io_bind m f) h s =
     (case m s of (Inl e, s') \<Rightarrow> h e s' | (Inr a, s') \<Rightarrow> try_catch (f a) h s')"
  by (simp add: try_catch_def io_bind_def split: prod.splits sum.splits)

lemma executeTrade_live_state:
  assumes "isLiveMode cfg" and "mexcApiKey cfg \<noteq> []" and "mexcSecretKey cfg \<noteq> []"
  shows "snd (executeTrade pf action cfg marketPrice s) =
     s\<lparr>clock_reads := Suc (clock_reads s),
       trace := trace s @
         [ClockRead (date_now pf (clock_reads s)),
          Signed (query_string pf (orderParams pf action cfg) (date_now pf (clock_reads s)))
                 (mexcSecretKey cfg),
          Dispatched
            (sent_request pf baseFuturesUrl ''/futures/api/v1/private/order/create'' ''POST'' cfg
               (orderParams pf action cfg) (date_now pf (clock_reads s)))]\<rparr>"
proof -
  have "snd (executeTrade pf action cfg marketPrice s) =
        snd (privateRequest pf baseFuturesUrl ''/futures/api/v1/private/order/create'' ''POST'' cfg
               (orderParams pf action cfg) s)"
    using assms(1)
    by (simp add: executeTrade_def io_bind_def io_return_def split: prod.splits sum.splits)
  then show ?thesis
    using assms(2,3) by (simp add: privateRequest_state)
qed

lemma cycle_posts:
  assumes md: "marketData app0 = Some md"
    and auto: "isAutoTrading (settings app0)"
    and live: "isLiveMode (settings app0)"
    and key: "mexcApiKey (settings app0) \<noteq> []"
    and secret: "mexcSecretKey (settings app0) \<noteq> []"
    and an: "analyze pf (settings app0) md
               (side_name (case mexcPositions app0 of [] \<Rightarrow> NONE | p # ps \<Rightarrow> side p)) (run app)
             = (Inr decision, s1)"
    and act: "get_prop decision ''action'' = Inr action"
    and nw: "\<not> strict_eq pf action (JStr ''WAIT'')"
  shows "app_posts (snd (runTradingCycle pf app0 app)) =
           app_posts app @
           [sent_request pf baseFuturesUrl ''/futures/api/v1/private/order/create'' ''POST''
              (settings app0) (orderParams pf action (settings app0))
              (date_now pf (Suc (Suc (clock_reads s1))))]"
proof -
  let ?cfg = "settings app0"
  let ?req = "sent_request pf baseFuturesUrl ''/futures/api/v1/private/order/create'' ''POST''
              ?cfg (orderParams pf action ?cfg) (date_now pf (Suc (Suc (clock_reads s1))))"
  let ?S3 = "s1\<lparr>clock_reads := Suc (Suc (clock_reads s1)),
                trace := trace s1 @
                  [ClockRead (date_now pf (clock_reads s1)),
                   ClockRead (date_now pf (Suc (clock_reads s1)))]\<rparr>"
  have p1: "posts s1 = app_posts app"
    using keepsD [OF posts_analyze
            [of pf ?cfg md "side_name (case mexcPositions app0 of [] \<Rightarrow> NONE | p # ps \<Rightarrow> side p)"],
            of "run app"] an
    by simp
  obtain r s4 where ex: "executeTrade pf action ?cfg (price md) ?S3 = (r, s4)"
    by (cases "executeTrade pf action ?cfg (price md) ?S3")
  from executeTrade_live_state [OF live key secret, of pf action "price md" ?S3] ex
  have p4: "posts s4 = app_posts app @ [?req]"
    by (simp add: private_posts_append sent_request_def p1)
  show ?thesis
  proof (cases r)
    case (Inl e)
    show ?thesis
      using md auto live an act nw ex Inl p4
      by (simp add: runTradingCycle_def try_catch_bind modify_def in_run_def io_of_def
          io_bind_def addLog_eq Let_def private_posts_append)
  next
    case (Inr x)
    show ?thesis
      using md auto live an act nw ex Inr p4
      by (simp add: runTradingCycle_def try_catch_bind modify_def in_run_def io_of_def
          io_bind_def addLog_eq Let_def private_posts_append refreshAccountData_then
          try_catch_def keepsD [OF posts_refreshAccountData])
  qed
qed

text \<open>
  Claim C1, as amended. In live mode, with auto-trading on, a snapshot and both credentials, a
  cycle whose analysis returns action LONG hands exactly one private POST request to \<^verbatim>\<open>fetch\<close>:
  the order creation, with side 1 and with the leverage of the configuration
  (\<^verbatim>\<open>defaultLeverage\<close>), whatever leverage the decision asks for and whatever the current side is.
\<close>

theorem live_long_submits_one_order:
  assumes "marketData app0 = Some md"
    and "isAutoTrading (settings app0)"
    and "isLiveMode (settings app0)"
    and "mexcApiKey (settings app0) \<noteq> []"
    and "mexcSecretKey (settings app0) \<noteq> []"
    and "analyze pf (settings app0) md
           (side_name (case mexcPositions app0 of [] \<Rightarrow> NONE | p # ps \<Rightarrow> side p)) (run app)
         = (Inr decision, s1)"
    and "get_prop decision ''action'' = Inr (JStr ''LONG'')"
  shows "private_posts (trace (run (snd (runTradingCycle pf app0 app)))) =
           private_posts (trace (run app)) @
           [sent_request pf baseFuturesUrl ''/futures/api/v1/private/order/create'' ''POST''
              (settings app0)
              [(''symbol'', JStr (tradingSymbol (settings app0))),
               (''vol'', JNum (num pf 1)),
               (''side'', JNum (num pf 1)),
               (''type'', JNum (num pf 5)),
               (''openType'', JNum (num pf 1)),
               (''leverage'', JNum (defaultLeverage (settings app0)))]
              (date_now pf (Suc (Suc (clock_reads s1))))]"
proof -
  have "\<not> strict_eq pf (JStr ''LONG'') (JStr ''WAIT'')" by simp
  from cycle_posts [OF assms this] show ?thesis
    by (simp add: orderParams_def side_code_def)
qed

lemma demo_analyze:
  "analyze demo demo_settings demo_market ''NONE'' start_run =
   (Inr decision_value,
    \<lparr>clock_reads = 0, random_draws = 0, geminiClient = Some ''g-key'',
     trace = [GeminiCall ''g-key'' (build_prompt demo_market ''NONE'')]\<rparr>)"
  by (simp add: analyze_def analyze_try_def try_catch_def io_bind_def io_of_def io_return_def
      getGemini_def await_generateContent_def emit_def demo_eval Let_def)

lemma demo_order_request:
  "sent_request demo baseFuturesUrl ''/futures/api/v1/private/order/create'' ''POST'' demo_settings
     [(''symbol'', JStr ''BTCUSDT''), (''vol'', JNum (Fin 1)), (''side'', JNum (Fin 1)),
      (''type'', JNum (Fin 5)), (''openType'', JNum (Fin 1)), (''leverage'', JNum (Fin 10))]
     1700000000000 =
   \<lparr>url = ''https://fapi.mexc.com/futures/api/v1/private/order/create?symbol=BTCUSDT&vol=1&side=1&type=5&openType=1&leverage=10&timestamp=1700000000000&signature=ab01'',
    http_method = ''POST'',
    headers = [(''X-MEXC-APIKEY'', ''mx0key''), (''Content-Type'', ''application/json'')],
    body = None\<rparr>"
  by (simp add: sent_request_def target_url_def query_string_def signature_of_def forwarded_def
      demo_eval str_eval baseFuturesUrl_def)

lemma demo_cycle_hyps:
  "marketData (demo_app demo_settings (Some demo_market)) = Some demo_market"
  "settings (demo_app demo_settings (Some demo_market)) = demo_settings"
  "mexcPositions (demo_app demo_settings (Some demo_market)) = []"
  "run (demo_app demo_settings (Some demo_market)) = start_run"
  by (simp_all add: demo_app_def)

text \<open>
  Claim C1 as amended, at the example of the specification: the decision is LONG with leverage 5,
  the configured leverage is 10.
\<close>

theorem live_long_witness:
  "private_posts
     (trace (run (snd (runTradingCycle demo (demo_app demo_settings (Some demo_market))
                         (demo_app demo_settings (Some demo_market)))))) =
   [\<lparr>url = ''https://fapi.mexc.com/futures/api/v1/private/order/create?symbol=BTCUSDT&vol=1&side=1&type=5&openType=1&leverage=10&timestamp=1700000000000&signature=ab01'',
     http_method = ''POST'',
     headers = [(''X-MEXC-APIKEY'', ''mx0key''), (''Content-Type'', ''application/json'')],
     body = None\<rparr>]"
proof -
  let ?app = "demo_app demo_settings (Some demo_market)"
  let ?s1 = "\<lparr>clock_reads = 0, random_draws = 0, geminiClient = Some ''g-key'',
              trace = [GeminiCall ''g-key'' (build_prompt demo_market ''NONE'')]\<rparr> :: xnum run_state"
  have md: "marketData ?app = Some demo_market" by (simp add: demo_cycle_hyps)
  have auto: "isAutoTrading (settings ?app)" and live: "isLiveMode (settings ?app)"
    and key: "mexcApiKey (settings ?app) \<noteq> []" and secret: "mexcSecretKey (settings ?app) \<noteq> []"
    by (simp_all add: demo_cycle_hyps demo_settings_sel)
  have an: "analyze demo (settings ?app) demo_market
              (side_name (case mexcPositions ?app of [] \<Rightarrow> NONE | p # ps \<Rightarrow> side p)) (run ?app)
            = (Inr decision_value, ?s1)"
    by (simp add: demo_cycle_hyps demo_analyze)
  have act: "get_prop decision_value ''action'' = Inr (JStr ''LONG'')"
    by (simp add: decision_value_def get_prop_def)
  from live_long_submits_one_order [OF md auto live key secret an act] show ?thesis
    by (simp add: demo_cycle_hyps demo_settings_sel start_run_def)
       (simp add: demo_def demo_platform_sel demo_order_request [unfolded demo_def])
qed

text \<open>
  Claim C1 as stated fails there: the decision asks for leverage 5, and the one order creation
  request carries \<open>leverage=10\<close>.
\<close>

theorem decision_leverage_not_sent:
  "fst (analyze demo demo_settings demo_market ''NONE'' start_run) = Inr decision_value
   \<and> field decision_value ''action'' = JStr ''LONG''
   \<and> field decision_value ''leverage'' = JNum (Fin 5)
   \<and> defaultLeverage demo_settings = Fin 10
   \<and> map url
        (private_posts
           (trace (run (snd (runTradingCycle demo (demo_app demo_settings (Some demo_market))
                               (demo_app demo_settings (Some demo_market))))))) =
      [''https://fapi.mexc.com/futures/api/v1/private/order/create?symbol=BTCUSDT&vol=1&side=1&type=5&openType=1&leverage=10&timestamp=1700000000000&signature=ab01'']
   \<and> \<not> str_includes
         ''https://fapi.mexc.com/futures/api/v1/private/order/create?symbol=BTCUSDT&vol=1&side=1&type=5&openType=1&leverage=10&timestamp=1700000000000&signature=ab01''
         ''leverage=5''"
proof -
  let ?app = "demo_app demo_settings (Some demo_market)"
  let ?s1 = "\<lparr>clock_reads = 0, random_draws = 0, geminiClient = Some ''g-key'',
              trace = [GeminiCall ''g-key'' (build_prompt demo_market ''NONE'')]\<rparr> :: xnum run_state"
  have md: "marketData ?app = Some demo_market" by (simp add: demo_cycle_hyps)
  have auto: "isAutoTrading (settings ?app)" and live: "isLiveMode (settings ?app)"
    and key: "mexcApiKey (settings ?app) \<noteq> []" and secret: "mexcSecretKey (settings ?app) \<noteq> []"
    by (simp_all add: demo_cycle_hyps demo_settings_sel)
  have an: "analyze demo (settings ?app) demo_market
              (side_name (case mexcPositions ?app of [] \<Rightarrow> NONE | p # ps \<Rightarrow> side p)) (run ?app)
            = (Inr decision_value, ?s1)"
    by (simp add: demo_cycle_hyps demo_analyze)
  have act: "get_prop decision_value ''action'' = Inr (JStr ''LONG'')"
    by (simp add: decision_value_def get_prop_def)
  have nw: "\<not> strict_eq demo (JStr ''LONG'') (JStr ''WAIT'')" by simp
  have sent: "private_posts (trace (run (snd (runTradingCycle demo ?app ?app)))) =
     [\<lparr>url = ''https://fapi.mexc.com/futures/api/v1/private/order/create?symbol=BTCUSDT&vol=1&side=1&type=5&openType=1&leverage=10&timestamp=1700000000000&signature=ab01'',
       http_method = ''POST'',
       headers = [(''X-MEXC-APIKEY'', ''mx0key''), (''Content-Type'', ''application/json'')],
       body = None\<rparr>]"
    using cycle_posts [OF md auto live key secret an act nw]
    by (simp add: demo_cycle_hyps demo_settings_sel start_run_def orderParams_def side_code_def)
       (simp add: demo_def demo_platform_sel demo_order_request [unfolded demo_def])
  have "\<not> str_includes
         ''https://fapi.mexc.com/futures/api/v1/private/order/create?symbol=BTCUSDT&vol=1&side=1&type=5&openType=1&leverage=10&timestamp=1700000000000&signature=ab01''
         ''leverage=5''"
    by simp
  then show ?thesis
    by (simp add: sent demo_analyze demo_settings_sel decision_value_def field_def get_prop_def)
qed

end
